theory Spec2Isabelle
  imports Complex_Main "HOL-Library.Sublist"
begin

section \<open>JavaScript values\<close>

text \<open>
  Request bodies, provider replies and payloads are JSON documents held as JavaScript
  values. An object is the list of its own properties in insertion order (keys distinct,
  as \<open>JSON.parse\<close> produces them); \<open>JUndefined\<close> is what reading an absent property
  gives. Strings are sequences of code units below 256.

  The program never computes with a number it receives: it tests it for truth and it
  converts it to a string (for \<open>parseInt\<close>, a URL or a message). So a number is held as
  the text \<open>Number.prototype.toString\<close> prints for it, which determines the number:
  \<open>JNum ''1500''\<close>, \<open>JNum ''-3''\<close>, \<open>JNum ''0.3''\<close>, \<open>JNum ''1e+21''\<close> (whole numbers print
  in plain digits below \<open>10^21\<close> and with an exponent from there on). Zero prints as
  \<open>0\<close>, whatever its sign.
\<close>

datatype json =
    JUndefined
  | JNull
  | JBool bool
  | JNum string
  | JStr string
  | JArr "json list"
  | JObj "(string \<times> json) list"

fun truthy :: "json \<Rightarrow> bool" where
  "truthy JUndefined = False"
| "truthy JNull = False"
| "truthy (JBool b) = b"
| "truthy (JNum printed) = (printed \<noteq> ''0'')"
| "truthy (JStr s) = (s \<noteq> [])"
| "truthy (JArr xs) = True"
| "truthy (JObj fs) = True"

fun isString :: "json \<Rightarrow> bool" where
  "isString (JStr s) = True"
| "isString v = False"

fun isArray :: "json \<Rightarrow> bool" where
  "isArray (JArr xs) = True"
| "isArray v = False"

text \<open>\<open>typeof v === "object"\<close> holds of \<open>null\<close>, of arrays and of objects.\<close>

fun typeofObject :: "json \<Rightarrow> bool" where
  "typeofObject JNull = True"
| "typeofObject (JArr xs) = True"
| "typeofObject (JObj fs) = True"
| "typeofObject v = False"

fun nullish :: "json \<Rightarrow> bool" where
  "nullish JUndefined = True"
| "nullish JNull = True"
| "nullish v = False"

text \<open>\<open>a ?? b\<close>\<close>

definition coalesce :: "json \<Rightarrow> json \<Rightarrow> json" where
  "coalesce a b = (if nullish a then b else a)"

text \<open>
  \<open>v.k\<close> for the property names the program reads (none of them is a built-in property
  of strings, arrays or \<open>Object.prototype\<close>). Reading a property of \<open>null\<close> or
  \<open>undefined\<close> throws; the callers below guard those reads or model the throw.
\<close>

fun getField :: "json \<Rightarrow> string \<Rightarrow> json" where
  "getField (JObj fs) k = (case map_of fs k of Some v \<Rightarrow> v | None \<Rightarrow> JUndefined)"
| "getField v k = JUndefined"

text \<open>
  The property names that every object literal of the program (\<open>MODEL_CONFIG\<close>,
  \<open>modelStates\<close>) answers without having them: those of \<open>Object.prototype\<close>. Each of
  them reads as a function or an object, so as a truthy value, with no property the
  program goes on to read.
\<close>

definition inheritedNames :: "string list" where
  "inheritedNames =
     [''constructor'', ''__defineGetter__'', ''__defineSetter__'', ''hasOwnProperty'',
      ''__lookupGetter__'', ''__lookupSetter__'', ''isPrototypeOf'', ''propertyIsEnumerable'',
      ''toString'', ''valueOf'', ''__proto__'', ''toLocaleString'']"

fun stringOf :: "json \<Rightarrow> string" where
  "stringOf (JStr s) = s"
| "stringOf v = []"

fun itemsOf :: "json \<Rightarrow> json list" where
  "itemsOf (JArr xs) = xs"
| "itemsOf v = []"

fun keysOf :: "json \<Rightarrow> string list" where
  "keysOf (JObj fs) = map fst fs"
| "keysOf v = []"

section \<open>Strings\<close>

definition code :: "char \<Rightarrow> nat" where
  "code c = of_char c"

text \<open>
  The code units that \<open>String.prototype.trim\<close>, \<open>parseInt\<close> and the regular-expression
  class \<open>\s\<close> treat as white space, below 256: TAB, LF, VT, FF, CR, SPACE and NBSP.
\<close>

definition isWhiteSpace :: "char \<Rightarrow> bool" where
  "isWhiteSpace c = ((9 \<le> code c \<and> code c \<le> 13) \<or> code c = 32 \<or> code c = 160)"

definition isDigit :: "char \<Rightarrow> bool" where
  "isDigit c = (48 \<le> code c \<and> code c \<le> 57)"

definition isUpperAZ :: "char \<Rightarrow> bool" where
  "isUpperAZ c = (65 \<le> code c \<and> code c \<le> 90)"

definition isLowerAZ :: "char \<Rightarrow> bool" where
  "isLowerAZ c = (97 \<le> code c \<and> code c \<le> 122)"

definition trim :: "string \<Rightarrow> string" where
  "trim s = rev (dropWhile isWhiteSpace (rev (dropWhile isWhiteSpace s)))"

text \<open>
  \<open>toLowerCase\<close> and \<open>toUpperCase\<close> on code units below 256. Sharp s becomes \<open>SS\<close>; the
  micro sign and y with diaeresis have their capitals above 255 and are left as they are.
\<close>

definition lowerChar :: "char \<Rightarrow> char" where
  "lowerChar c =
     (if isUpperAZ c \<or> (192 \<le> code c \<and> code c \<le> 222 \<and> code c \<noteq> 215)
      then char_of (code c + 32) else c)"

definition upperChar :: "char \<Rightarrow> string" where
  "upperChar c =
     (if isLowerAZ c \<or> (224 \<le> code c \<and> code c \<le> 254 \<and> code c \<noteq> 247)
      then [char_of (code c - 32)]
      else if code c = 223 then ''SS'' else [c])"

definition toLowerCase :: "string \<Rightarrow> string" where
  "toLowerCase s = map lowerChar s"

definition toUpperCase :: "string \<Rightarrow> string" where
  "toUpperCase s = concat (map upperChar s)"

text \<open>\<open>xs.join(sep)\<close> on strings\<close>

fun join :: "string \<Rightarrow> string list \<Rightarrow> string" where
  "join sep [] = []"
| "join sep [x] = x"
| "join sep (x # y # ys) = x @ sep @ join sep (y # ys)"

text \<open>\<open>s.split(c)\<close> for a one-character separator: always at least one piece.\<close>

fun split :: "char \<Rightarrow> string \<Rightarrow> string list" where
  "split c [] = [[]]"
| "split c (x # xs) =
     (if x = c then [] # split c xs
      else (case split c xs of [] \<Rightarrow> [[x]] | l # ls \<Rightarrow> (x # l) # ls))"

text \<open>\<open>xs.slice(-n)\<close>\<close>

definition sliceLast :: "nat \<Rightarrow> 'a list \<Rightarrow> 'a list" where
  "sliceLast n xs = drop (length xs - n) xs"

subsection \<open>Numbers to strings and back\<close>

fun showNat :: "nat \<Rightarrow> string" where
  "showNat n =
     (if n < 10 then [char_of (48 + n)]
      else showNat (n div 10) @ [char_of (48 + n mod 10)])"

declare showNat.simps [simp del]

definition showInt :: "int \<Rightarrow> string" where
  "showInt i = (if i < 0 then CHR ''-'' # showNat (nat (- i)) else showNat (nat i))"

text \<open>The whole number \<open>n\<close> as a value, for \<open>n\<close> of magnitude below \<open>10^21\<close>.\<close>

definition number :: "int \<Rightarrow> json" where
  "number n = JNum (showInt n)"

text \<open>
  What the server code can throw: an \<open>Error\<close> that \<open>createAndPollPrediction\<close> gives a
  \<open>status\<close> and \<open>details\<close>, or a \<open>TypeError\<close> of the engine (with V8's message).
\<close>

datatype thrown =
    StatusError (thrown_message: string) (thrown_status: nat) (thrown_details: json)
  | TypeError (thrown_message: string)

definition cannotConvert :: thrown where
  "cannotConvert = TypeError ''Cannot convert object to primitive value''"

text \<open>
  \<open>String(v)\<close>, as \<open>parseInt\<close>, a template literal and \<open>new Error\<close> apply it. An object
  prints as \<open>[object Object]\<close> through the \<open>toString\<close> it inherits; when it has a key
  \<open>toString\<close> of its own, that value (JSON holds no function) is not callable, the
  inherited \<open>valueOf\<close> returns the object itself, and the conversion throws. An array
  prints its elements separated by commas, left to right, \<open>null\<close> and \<open>undefined\<close>
  elements as nothing, and throws when an element does.
\<close>

fun toStringJS :: "json \<Rightarrow> thrown + string"
  and elementStrings :: "json list \<Rightarrow> thrown + string list" where
  "toStringJS JUndefined = Inr ''undefined''"
| "toStringJS JNull = Inr ''null''"
| "toStringJS (JBool b) = Inr (if b then ''true'' else ''false'')"
| "toStringJS (JNum printed) = Inr printed"
| "toStringJS (JStr s) = Inr s"
| "toStringJS (JArr xs) =
     (case elementStrings xs of Inl err \<Rightarrow> Inl err | Inr strs \<Rightarrow> Inr (join '','' strs))"
| "toStringJS (JObj fs) =
     (if ''toString'' \<in> set (map fst fs) then Inl cannotConvert
      else Inr ''[object Object]'')"
| "elementStrings [] = Inr []"
| "elementStrings (x # xs) =
     (case (if nullish x then Inr [] else toStringJS x) of
        Inl err \<Rightarrow> Inl err
      | Inr str \<Rightarrow>
          (case elementStrings xs of Inl err \<Rightarrow> Inl err | Inr strs \<Rightarrow> Inr (str # strs)))"

fun digitsValue :: "int \<Rightarrow> string \<Rightarrow> int" where
  "digitsValue acc [] = acc"
| "digitsValue acc (c # cs) = digitsValue (acc * 10 + int (code c - 48)) cs"

text \<open>
  \<open>Number.parseInt(s, 10)\<close> on a string: leading white space is skipped, one sign is
  read, then the longest run of decimal digits; \<open>None\<close> is \<open>NaN\<close> (no digit there).
  The value is the mathematical integer (JavaScript rounds it to a double, which
  \<open>clampNumber\<close> with whole bounds does not see).
\<close>

definition parseIntString :: "string \<Rightarrow> int option" where
  "parseIntString s =
     (let s1 = dropWhile isWhiteSpace s;
          negative = (case s1 of [] \<Rightarrow> False | c # cs \<Rightarrow> c = CHR ''-'');
          s2 = (case s1 of [] \<Rightarrow> []
                | c # cs \<Rightarrow> if c = CHR ''-'' \<or> c = CHR ''+'' then cs else s1);
          ds = takeWhile isDigit s2
      in if ds = [] then None
         else Some (if negative then - digitsValue 0 ds else digitsValue 0 ds))"

text \<open>
  \<open>Number.parseInt(v, 10)\<close> on any value: \<open>v\<close> is converted to a string first, which
  can throw; \<open>Inr None\<close> is \<open>NaN\<close>.
\<close>

definition parseInt :: "json \<Rightarrow> thrown + int option" where
  "parseInt v =
     (case toStringJS v of Inl err \<Rightarrow> Inl err | Inr str \<Rightarrow> Inr (parseIntString str))"

text \<open>\<open>const clampNumber = (value, min, max) => Math.min(max, Math.max(min, value))\<close>\<close>

definition clampNumber :: "int \<Rightarrow> int \<Rightarrow> int \<Rightarrow> int" where
  "clampNumber v lo hi = min hi (max lo v)"

section \<open>The server: configuration\<close>

text \<open>
  The environment variables the server reads at start-up. \<open>pollIntervalMs\<close> and
  \<open>waitTimeoutMs\<close> are the two numeric constants as whole milliseconds.
\<close>

record environment =
  REPLICATE_API_TOKEN :: "string option"
  REPLICATE_SEEDREAM_VERSION :: "string option"
  REPLICATE_MODEL_VERSION :: "string option"
  REPLICATE_NANO_BANANA_VERSION :: "string option"
  REPLICATE_DEFAULT_MODEL_KEY :: "string option"
  REPLICATE_REFINE_MODEL_VERSION :: "string option"
  pollIntervalMs :: nat
  waitTimeoutMs :: nat

text \<open>An environment variable is falsy when it is unset or empty.\<close>

fun present :: "string option \<Rightarrow> bool" where
  "present None = False"
| "present (Some s) = (s \<noteq> [])"

text \<open>\<open>a || b\<close> on environment variables\<close>

definition orElse :: "string option \<Rightarrow> string option \<Rightarrow> string option" where
  "orElse a b = (if present a then a else b)"

definition terminalStatuses :: "string list" where
  "terminalStatuses = [''succeeded'', ''failed'', ''canceled'']"

definition DEFAULT_MODEL_KEY :: "environment \<Rightarrow> string" where
  "DEFAULT_MODEL_KEY e =
     toLowerCase (case orElse (REPLICATE_DEFAULT_MODEL_KEY e) (Some ''seedream'') of
                    Some k \<Rightarrow> k | None \<Rightarrow> ''seedream'')"

datatype modelEntry = ModelEntry (envKey: "string option") (version: "string option")

text \<open>
  \<open>MODEL_CONFIG[modelKey]\<close>. The table has two entries of its own; being an object
  literal it also answers the names it inherits (of which \<open>constructor\<close> and \<open>__proto__\<close>
  are lower-case), with a value that is truthy and has neither \<open>envKey\<close> nor \<open>version\<close>.
\<close>

definition MODEL_CONFIG :: "environment \<Rightarrow> string \<Rightarrow> modelEntry option" where
  "MODEL_CONFIG e k =
     (if k = ''seedream'' then
        Some (ModelEntry (Some ''REPLICATE_SEEDREAM_VERSION'')
                (orElse (REPLICATE_SEEDREAM_VERSION e) (REPLICATE_MODEL_VERSION e)))
      else if k = ''nano-banana'' then
        Some (ModelEntry (Some ''REPLICATE_NANO_BANANA_VERSION'')
                (REPLICATE_NANO_BANANA_VERSION e))
      else if k \<in> set inheritedNames then Some (ModelEntry None None)
      else None)"

definition DIMENSION_LIMITS :: "int \<times> int" where
  "DIMENSION_LIMITS = (1024, 4096)"

definition MAX_IMAGES_LIMITS :: "int \<times> int" where
  "MAX_IMAGES_LIMITS = (1, 15)"

section \<open>The server: responses\<close>

text \<open>
  What a handler sends: the HTTP status and the JSON body, one constructor per shape of
  body. \<open>elapsed_seconds\<close> is \<open>Number(((Date.now() - startedAt) / 1000).toFixed(2))\<close>, a
  floating-point rounding of the elapsed milliseconds, which are kept here as they are.
  A \<open>details\<close> of \<open>JUndefined\<close> is a body with no \<open>details\<close> key.
\<close>

datatype reply =
    ErrorReply (reply_error: string) (reply_details: json)
  | PredictionReply (reply_elapsed_ms: nat) (reply_prediction: json)
  | RefineReply (reply_refined_prompt: string) (reply_elapsed_ms: nat) (reply_prediction: json)

datatype response = Response (http_status: nat) (http_body: reply)

text \<open>
  The \<open>catch\<close> block of both handlers: an error with a \<open>status\<close> property is passed on
  with its status, message and details; anything else is a 500.
\<close>

fun caught :: "thrown \<Rightarrow> response" where
  "caught (StatusError m st d) =
     Response (if st \<noteq> 0 then st else 500)
       (ErrorReply (if m \<noteq> [] then m else ''Replicate request failed.'') d)"
| "caught (TypeError m) = Response 500 (ErrorReply ''Unexpected server error.'' (JStr m))"

section \<open>The server: normalising the request body\<close>

text \<open>\<open>body.model_key\<close> lower-cased, or the default key.\<close>

definition resolveModelKey :: "environment \<Rightarrow> json \<Rightarrow> string" where
  "resolveModelKey e body =
     (let rawModelKey = (if isString (getField body ''model_key'')
                         then getField body ''model_key'' else JUndefined)
      in toLowerCase (if truthy rawModelKey then stringOf rawModelKey
                      else DEFAULT_MODEL_KEY e))"

text \<open>\<open>typeof body.prompt === "string" ? body.prompt : ""\<close>, trimmed\<close>

definition trimmedPrompt :: "json \<Rightarrow> string" where
  "trimmedPrompt body =
     trim (if isString (getField body ''prompt'')
           then stringOf (getField body ''prompt'') else [])"

definition imageInput :: "json \<Rightarrow> json list" where
  "imageInput body =
     (if isArray (getField body ''image_input'')
      then filter (\<lambda>item. isString item \<and> trim (stringOf item) \<noteq> [])
             (itemsOf (getField body ''image_input''))
      else [])"

definition normalizeSize :: "json \<Rightarrow> string" where
  "normalizeSize rawValue =
     (let rawSize = (if isString rawValue then stringOf rawValue else ''2K'');
          trimmedSize = trim rawSize;
          lowerSize = toLowerCase trimmedSize;
          upperSize = toUpperCase trimmedSize
      in if lowerSize = ''custom'' then ''custom''
         else if upperSize \<in> set [''1K'', ''2K'', ''4K''] then upperSize
         else ''2K'')"

text \<open>A property that is set only when the parsed number is not \<open>NaN\<close>.\<close>

definition dimensionField :: "string \<Rightarrow> int option \<Rightarrow> (string \<times> json) list" where
  "dimensionField k parsed =
     (case parsed of
        None \<Rightarrow> []
      | Some n \<Rightarrow>
          [(k, number (clampNumber n (fst DIMENSION_LIMITS) (snd DIMENSION_LIMITS)))])"

definition imageInputField :: "json \<Rightarrow> (string \<times> json) list" where
  "imageInputField body =
     (if length (imageInput body) > 0 then [(''image_input'', JArr (imageInput body))]
      else [])"

text \<open>
  The seedream branch, statement by statement: the three calls of \<open>Number.parseInt\<close> are
  made in the order \<open>max_images\<close>, \<open>width\<close>, \<open>height\<close> (the last two only for a custom
  size), and each can throw.
\<close>

definition seedreamPayload :: "string \<Rightarrow> json \<Rightarrow> thrown + json" where
  "seedreamPayload prompt body =
     (let size = normalizeSize (getField body ''size'');
          aspectRatio = (if isString (getField body ''aspect_ratio'')
                         then getField body ''aspect_ratio'' else JStr ''match_input_image'');
          sequential = (if isString (getField body ''sequential_image_generation'')
                        then getField body ''sequential_image_generation''
                        else JStr ''disabled'')
      in case parseInt (getField body ''max_images'') of
           Inl err \<Rightarrow> Inl err
         | Inr parsedMaxImages \<Rightarrow>
             (let maxImages = (case parsedMaxImages of
                                 None \<Rightarrow> 1
                               | Some n \<Rightarrow>
                                   clampNumber n (fst MAX_IMAGES_LIMITS) (snd MAX_IMAGES_LIMITS));
                  payload = [(''prompt'', JStr prompt),
                             (''size'', JStr size),
                             (''aspect_ratio'', aspectRatio),
                             (''sequential_image_generation'', sequential),
                             (''max_images'', number maxImages)]
              in if size = ''custom'' then
                   (case parseInt (getField body ''width'') of
                      Inl err \<Rightarrow> Inl err
                    | Inr parsedWidth \<Rightarrow>
                        (case parseInt (getField body ''height'') of
                           Inl err \<Rightarrow> Inl err
                         | Inr parsedHeight \<Rightarrow>
                             Inr (JObj (payload
                                        @ dimensionField ''width'' parsedWidth
                                        @ dimensionField ''height'' parsedHeight
                                        @ imageInputField body))))
                 else Inr (JObj (payload @ imageInputField body))))"

definition nanoBananaPayload :: "string \<Rightarrow> json \<Rightarrow> json" where
  "nanoBananaPayload prompt body =
     (let aspectRatio = (if isString (getField body ''aspect_ratio'')
                         then getField body ''aspect_ratio'' else JStr ''16:9'');
          outputFormat = (if isString (getField body ''output_format'')
                          then getField body ''output_format'' else JStr ''jpg'')
      in JObj ([(''prompt'', JStr prompt),
                (''aspect_ratio'', aspectRatio),
                (''output_format'', outputFormat)]
               @ imageInputField body))"

definition inputPayload :: "string \<Rightarrow> string \<Rightarrow> json \<Rightarrow> thrown + json" where
  "inputPayload modelKey prompt body =
     (if modelKey = ''seedream'' then seedreamPayload prompt body
      else Inr (nanoBananaPayload prompt body))"

text \<open>
  The \<open>/api/predictions\<close> handler from \<open>const body = req.body || {}\<close> to
  \<open>replicateBody\<close>: either the response of an early \<open>return\<close> or of the \<open>catch\<close> block
  (when \<open>parseInt\<close> throws), or the request body \<open>{version, input}\<close> for the provider. No
  request is made on the way.
\<close>

definition missingVersion :: "string \<Rightarrow> modelEntry \<Rightarrow> response" where
  \<open>missingVersion modelKey config =
     (let envHint =
            (if modelKey = ''seedream''
             then ''REPLICATE_SEEDREAM_VERSION (or legacy REPLICATE_MODEL_VERSION)''
             else (case orElse (envKey config) (Some ''model version environment variable'') of
                     Some h \<Rightarrow> h
                   | None \<Rightarrow> ''model version environment variable''))
      in Response 500
           (ErrorReply (''Missing '' @ envHint @ '' for model "'' @ modelKey @ ''".'')
              JUndefined))\<close>

text \<open>\<open>req.body || {}\<close>\<close>

definition requestBody :: "json \<Rightarrow> json" where
  "requestBody reqBody = (if truthy reqBody then reqBody else JObj [])"

definition normalizeRequest :: "environment \<Rightarrow> json \<Rightarrow> response + json" where
  \<open>normalizeRequest e reqBody =
     (let body = requestBody reqBody;
          modelKey = resolveModelKey e body
      in case MODEL_CONFIG e modelKey of
           None \<Rightarrow>
             Inl (Response 400
                    (ErrorReply (''Unsupported model key "'' @ modelKey @ ''".'') JUndefined))
         | Some config \<Rightarrow>
             if \<not> present (version config) then Inl (missingVersion modelKey config)
             else if trimmedPrompt body = [] then
               Inl (Response 400 (ErrorReply ''Field "prompt" is required.'' JUndefined))
             else
               (case inputPayload modelKey (trimmedPrompt body) body of
                  Inl err \<Rightarrow> Inl (caught err)
                | Inr input \<Rightarrow>
                    Inr (JObj [(''version'',
                                JStr (case version config of Some v \<Rightarrow> v | None \<Rightarrow> [])),
                               (''input'', input)])))\<close>

section \<open>The server: the job runner\<close>

text \<open>
  What the provider answers to one request: \<open>response.ok\<close>, \<open>response.status\<close> and the
  parsed JSON of the body. Every request is taken to be answered with a JSON body.
\<close>

datatype fetched = Fetched (ok: bool) (fetched_status: nat) (fetched_json: json)

text \<open>
  One round of the polling loop as the provider and the clock decide it: the answer to the
  read request, and the milliseconds by which the round (the sleep and the request) ran
  longer than \<open>pollIntervalMs\<close>. A timer does not fire early, so a round takes at least
  the interval.
\<close>

datatype round = Round (overrun: nat) (answer: fetched)

text \<open>The requests sent, in order: the token and the body, or the token and the job id.\<close>

datatype request = CreateRequest string json | ReadRequest string string

fun isRead :: "request \<Rightarrow> bool" where
  "isRead (ReadRequest token ident) = True"
| "isRead (CreateRequest token reqBody) = False"

text \<open>
  What is thrown for a response that is not \<open>ok\<close>:
  \<open>new Error(prediction?.error || fallback)\<close> with \<open>status\<close> and \<open>details\<close> set. The
  constructor converts its argument to a string, which can throw.
\<close>

definition errorMessage :: "json \<Rightarrow> string \<Rightarrow> thrown + string" where
  "errorMessage prediction fallback =
     (if truthy (getField prediction ''error'')
      then toStringJS (getField prediction ''error'') else Inr fallback)"

definition failedRequest :: "fetched \<Rightarrow> string \<Rightarrow> thrown" where
  "failedRequest response fallback =
     (case errorMessage (fetched_json response) fallback of
        Inl err \<Rightarrow> err
      | Inr message \<Rightarrow>
          StatusError message (fetched_status response) (fetched_json response))"

text \<open>\<open>terminalStatuses.has(prediction.status)\<close>, for a prediction that is not \<open>null\<close>.\<close>

definition isTerminal :: "json \<Rightarrow> bool" where
  "isTerminal prediction =
     (isString (getField prediction ''status'')
      \<and> stringOf (getField prediction ''status'') \<in> set terminalStatuses)"

text \<open>
  The head of one loop iteration, before the sleep: the loop condition (which throws on a
  \<open>null\<close> snapshot, and ends the loop on a terminal one) and then the timeout check.
  \<open>None\<close>: the iteration goes on to sleep and poll.
\<close>

definition beforeSleep ::
  "nat \<Rightarrow> nat \<Rightarrow> json \<Rightarrow> (thrown + json \<times> nat) option" where
  "beforeSleep timeout elapsed prediction =
     (if nullish prediction then
        Some (Inl (TypeError (''Cannot read properties of ''
                                @ (if prediction = JNull then ''null'' else ''undefined'')
                                @ '' (reading 'status')'')))
      else if isTerminal prediction then Some (Inr (prediction, elapsed))
      else if elapsed > timeout then
        Some (Inl (StatusError ''Timed out while waiting for Replicate prediction to finish.''
                     504 prediction))
      else None)"

text \<open>
  One iteration up to the call of \<open>fetch\<close>: either the loop is over (\<open>Inl\<close>, with what it
  returns or throws), or the sleep is taken and the URL is built from \<open>prediction.id\<close>
  (\<open>Inr\<close>, with the id as the template literal prints it), which can throw.
\<close>

definition beforePoll ::
  "nat \<Rightarrow> nat \<Rightarrow> json \<Rightarrow> (thrown + json \<times> nat) + string" where
  "beforePoll timeout elapsed prediction =
     (case beforeSleep timeout elapsed prediction of
        Some outcome \<Rightarrow> Inl outcome
      | None \<Rightarrow>
          (case toStringJS (getField prediction ''id'') of
             Inl err \<Rightarrow> Inl (Inl err)
           | Inr ident \<Rightarrow> Inr ident))"

text \<open>
  The \<open>while\<close> loop of \<open>createAndPollPrediction\<close>. \<open>elapsed\<close> is \<open>Date.now() - startedAt\<close>
  at the head of the iteration, \<open>prediction\<close> the current snapshot, the list the rounds
  still to come. The result is what the loop returns or throws together with the read
  requests it sent; \<open>None\<close> when the listed rounds are used up before the loop ends.
\<close>

fun pollLoop ::
  "nat \<Rightarrow> nat \<Rightarrow> string \<Rightarrow> nat \<Rightarrow> json \<Rightarrow> round list
     \<Rightarrow> (thrown + json \<times> nat) option \<times> request list" where
  "pollLoop interval timeout token elapsed prediction [] =
     (case beforePoll timeout elapsed prediction of
        Inl outcome \<Rightarrow> (Some outcome, [])
      | Inr ident \<Rightarrow> (None, []))"
| "pollLoop interval timeout token elapsed prediction (r # rounds) =
     (case beforePoll timeout elapsed prediction of
        Inl outcome \<Rightarrow> (Some outcome, [])
      | Inr ident \<Rightarrow>
          (let sent = ReadRequest token ident;
               pollResponse = answer r;
               next = fetched_json pollResponse
           in if \<not> ok pollResponse then
                (Some (Inl (failedRequest pollResponse
                              ''Failed while polling prediction status.'')),
                 [sent])
              else (case pollLoop interval timeout token
                           (elapsed + interval + overrun r) next rounds of
                      (outcome, sentLater) \<Rightarrow> (outcome, sent # sentLater))))"

text \<open>
  \<open>createAndPollPrediction({token, body})\<close> against a provider that answers the create
  request with \<open>createResponse\<close> and the polls with \<open>rounds\<close>.
\<close>

definition createAndPollPrediction ::
  "environment \<Rightarrow> string \<Rightarrow> json \<Rightarrow> fetched \<Rightarrow> round list
     \<Rightarrow> (thrown + json \<times> nat) option \<times> request list" where
  "createAndPollPrediction e token reqBody createResponse rounds =
     (let initialPrediction = fetched_json createResponse
      in if \<not> ok createResponse then
           (Some (Inl (failedRequest createResponse ''Failed to create prediction.'')),
            [CreateRequest token reqBody])
         else (case pollLoop (pollIntervalMs e) (waitTimeoutMs e) token 0
                      initialPrediction rounds of
                 (outcome, sent) \<Rightarrow> (outcome, CreateRequest token reqBody # sent)))"

section \<open>The server: the handlers\<close>

text \<open>
  \<open>app.post("/api/predictions", ...)\<close>: the response and the requests sent to the
  provider; \<open>None\<close> when the listed rounds do not reach the end of the polling loop.
\<close>

definition predictionsHandler ::
  "environment \<Rightarrow> json \<Rightarrow> fetched \<Rightarrow> round list \<Rightarrow> response option \<times> request list" where
  "predictionsHandler e reqBody createResponse rounds =
     (if \<not> present (REPLICATE_API_TOKEN e) then
        (Some (Response 500 (ErrorReply ''Missing REPLICATE_API_TOKEN in environment.'' JUndefined)),
         [])
      else (case normalizeRequest e reqBody of
              Inl early \<Rightarrow> (Some early, [])
            | Inr replicateBody \<Rightarrow>
                (case createAndPollPrediction e
                        (case REPLICATE_API_TOKEN e of Some t \<Rightarrow> t | None \<Rightarrow> [])
                        replicateBody createResponse rounds of
                   (None, sent) \<Rightarrow> (None, sent)
                 | (Some (Inl err), sent) \<Rightarrow> (Some (caught err), sent)
                 | (Some (Inr (prediction, elapsed)), sent) \<Rightarrow>
                     (Some (Response 200 (PredictionReply elapsed prediction)), sent))))"

text \<open>\<open>const normalizeText = (value) => typeof value === "string" ? value.trim() : ""\<close>\<close>

definition normalizeText :: "json \<Rightarrow> string" where
  "normalizeText v = (if isString v then trim (stringOf v) else [])"

text \<open>
  The array \<open>candidates\<close> that \<open>extractTextOutput\<close> fills: each function takes the array
  as it is and returns it after the pushes of one loop body.
\<close>

definition pushPiece :: "json list \<Rightarrow> json \<Rightarrow> json list" where
  "pushPiece candidates piece =
     (if isString piece then candidates @ [piece]
      else if truthy piece \<and> typeofObject piece \<and> isString (getField piece ''text'')
      then candidates @ [getField piece ''text'']
      else candidates)"

definition pushItem :: "json list \<Rightarrow> json \<Rightarrow> json list" where
  "pushItem candidates item =
     (if isString item then candidates @ [item]
      else if truthy item \<and> typeofObject item then
        (let withText = (if isString (getField item ''text'')
                         then candidates @ [getField item ''text''] else candidates);
             withMessage = (if isString (getField item ''message'')
                            then withText @ [getField item ''message''] else withText)
         in if isArray (getField item ''content'')
            then foldl pushPiece withMessage (itemsOf (getField item ''content''))
            else withMessage)
      else candidates)"

definition collectCandidates :: "json \<Rightarrow> json list" where
  "collectCandidates prediction =
     (let fromString = (if isString (getField prediction ''output'')
                        then [getField prediction ''output''] else []);
          fromList = (if isArray (getField prediction ''output'')
                      then foldl pushItem fromString (itemsOf (getField prediction ''output''))
                      else fromString);
          fromOutputText = (if isString (getField prediction ''output_text'')
                            then fromList @ [getField prediction ''output_text'']
                            else fromList)
      in if isString (getField prediction ''logs'')
         then fromOutputText
              @ [JStr (join '' '' (sliceLast 5
                   (split (CHR 0x0A) (stringOf (getField prediction ''logs'')))))]
         else fromOutputText)"

text \<open>The final loop of \<open>extractTextOutput\<close>: the first candidate whose trimmed text is non-empty.\<close>

fun firstText :: "json list \<Rightarrow> string" where
  "firstText [] = []"
| "firstText (candidate # candidates) =
     (if normalizeText candidate \<noteq> [] then normalizeText candidate
      else firstText candidates)"

definition extractTextOutput :: "json \<Rightarrow> string" where
  "extractTextOutput prediction =
     (if \<not> truthy prediction then [] else firstText (collectCandidates prediction))"

definition refineBody :: "string \<Rightarrow> string \<Rightarrow> json" where
  "refineBody refineVersion prompt =
     JObj [(''version'', JStr refineVersion),
           (''input'', JObj
              [(''messages'', JArr
                  [JObj [(''role'', JStr ''system''),
                         (''content'', JStr ''You are an expert prompt engineer for text-to-image diffusion models. Refine prompts for clarity, vivid detail, and photo-realism while preserving the original intent. Respond with the improved prompt only.'')],
                   JObj [(''role'', JStr ''user''), (''content'', JStr prompt)]]),
               (''max_output_tokens'', JNum ''400''),
               (''temperature'', JNum ''0.3''),
               (''top_p'', JNum ''0.9''),
               (''prompt'', JStr (''Refine the following image-generation prompt while keeping its core intent intact. Respond with the improved prompt only.'' @ [CHR 0x0A, CHR 0x0A] @ prompt))])]"

text \<open>\<open>app.post("/api/refine", ...)\<close>\<close>

definition refineHandler ::
  "environment \<Rightarrow> json \<Rightarrow> fetched \<Rightarrow> round list \<Rightarrow> response option \<times> request list" where
  \<open>refineHandler e reqBody createResponse rounds =
     (if \<not> present (REPLICATE_API_TOKEN e) then
        (Some (Response 500 (ErrorReply ''Missing REPLICATE_API_TOKEN in environment.'' JUndefined)),
         [])
      else if \<not> present (REPLICATE_REFINE_MODEL_VERSION e) then
        (Some (Response 500 (ErrorReply ''Missing REPLICATE_REFINE_MODEL_VERSION in environment. Set it to the latest version id for openai/gpt-5-mini.'' JUndefined)),
         [])
      else if trimmedPrompt reqBody = [] then
        (Some (Response 400 (ErrorReply ''Field "prompt" is required.'' JUndefined)), [])
      else (case createAndPollPrediction e
                    (case REPLICATE_API_TOKEN e of Some t \<Rightarrow> t | None \<Rightarrow> [])
                    (refineBody
                       (case REPLICATE_REFINE_MODEL_VERSION e of Some v \<Rightarrow> v | None \<Rightarrow> [])
                       (trimmedPrompt reqBody))
                    createResponse rounds of
              (None, sent) \<Rightarrow> (None, sent)
            | (Some (Inl err), sent) \<Rightarrow> (Some (caught err), sent)
            | (Some (Inr (prediction, elapsed)), sent) \<Rightarrow>
                (let refinedPrompt = extractTextOutput prediction
                 in (Some (Response 200
                             (RefineReply
                                (if refinedPrompt \<noteq> [] then refinedPrompt
                                 else trimmedPrompt reqBody)
                                elapsed prediction)),
                     sent))))\<close>

section \<open>The client: finding the image in a finished job\<close>

text \<open>
  The part of the page's state that \<open>normalizeImageValue\<close> reads: per model the download
  extension chosen for the run and its default, and the key of the active model.
\<close>

record modelState =
  downloadExtension :: string
  defaultDownloadExtension :: string

record page =
  modelStates :: "(string \<times> modelState) list"
  activeModelKey :: string

text \<open>The class \<open>[A-Za-z0-9+/=\s]\<close> of \<open>base64Pattern\<close>.\<close>

definition base64Char :: "char \<Rightarrow> bool" where
  "base64Char c =
     (isUpperAZ c \<or> isLowerAZ c \<or> isDigit c
      \<or> c = CHR ''+'' \<or> c = CHR ''/'' \<or> c = CHR ''='' \<or> isWhiteSpace c)"

text \<open>\<open>/^[A-Za-z0-9+/=\s]+$/.test(s)\<close>\<close>

definition base64Pattern :: "string \<Rightarrow> bool" where
  "base64Pattern s = (s \<noteq> [] \<and> list_all base64Char s)"

text \<open>The characters that \<open>replace(/[^a-z0-9]/gi, "")\<close> keeps.\<close>

definition alphanumeric :: "char \<Rightarrow> bool" where
  "alphanumeric c = (isUpperAZ c \<or> isLowerAZ c \<or> isDigit c)"

text \<open>
  \<open>modelStates[key]\<close>: \<open>None\<close> is \<open>undefined\<close>, \<open>Some None\<close> the value of an inherited
  name (truthy, with no extension), \<open>Some (Some st)\<close> a state of the table's own.
\<close>

definition lookupState :: "page \<Rightarrow> string \<Rightarrow> modelState option option" where
  "lookupState pg k =
     (case map_of (modelStates pg) k of
        Some st \<Rightarrow> Some (Some st)
      | None \<Rightarrow> if k \<in> set inheritedNames then Some None else None)"

text \<open>
  The MIME subtype: the extension of \<open>modelStates[modelKey ?? activeModelKey]\<close>, or of
  \<open>modelStates[activeModelKey]\<close> when that is \<open>undefined\<close>, with \<open>jpeg\<close> for a missing or
  empty extension and again once everything but letters and digits is removed.
\<close>

definition imageFormat :: "page \<Rightarrow> string option \<Rightarrow> string" where
  "imageFormat pg modelKey =
     (let state = (case lookupState pg
                          (case modelKey of None \<Rightarrow> activeModelKey pg | Some k \<Rightarrow> k) of
                     Some found \<Rightarrow> Some found
                   | None \<Rightarrow> lookupState pg (activeModelKey pg));
          extension = (case state of
                         Some (Some st) \<Rightarrow>
                           if downloadExtension st \<noteq> [] then downloadExtension st
                           else if defaultDownloadExtension st \<noteq> []
                           then defaultDownloadExtension st
                           else ''jpeg''
                       | _ \<Rightarrow> ''jpeg'');
          format = filter alphanumeric extension
      in if format \<noteq> [] then format else ''jpeg'')"

text \<open>\<open>normalizeImageValue(value, modelKey)\<close>; \<open>None\<close> is \<open>null\<close>.\<close>

definition normalizeImageValue :: "page \<Rightarrow> json \<Rightarrow> string option \<Rightarrow> string option" where
  "normalizeImageValue pg v modelKey =
     (if \<not> isString v then None
      else let trimmed = trim (stringOf v)
           in if trimmed = [] then None
              else if prefix ''http://'' trimmed \<or> prefix ''https://'' trimmed
                      \<or> prefix ''data:'' trimmed
              then Some trimmed
              else if base64Pattern trimmed \<and> length trimmed > 100
              then Some (''data:image/'' @ imageFormat pg modelKey @ '';base64,''
                         @ filter (\<lambda>c. \<not> isWhiteSpace c) trimmed)
              else None)"

text \<open>
  \<open>for (const source of sources) { ...; if (normalized) return normalized; }\<close>: the first
  source that normalizes.
\<close>

fun probeSources :: "page \<Rightarrow> string option \<Rightarrow> json list \<Rightarrow> string option" where
  "probeSources pg modelKey [] = None"
| "probeSources pg modelKey (source # sources) =
     (case normalizeImageValue pg source modelKey of
        Some normalized \<Rightarrow> Some normalized
      | None \<Rightarrow> probeSources pg modelKey sources)"

definition imageSources :: "json \<Rightarrow> json list" where
  "imageSources item =
     [getField item ''image'', getField item ''url'', getField item ''uri'',
      getField item ''path'']"

text \<open>The loop over the items of an array output.\<close>

fun scanItems :: "page \<Rightarrow> string option \<Rightarrow> json list \<Rightarrow> string option" where
  "scanItems pg modelKey [] = None"
| "scanItems pg modelKey (item # items) =
     (case (if isString item then normalizeImageValue pg item modelKey else None) of
        Some normalized \<Rightarrow> Some normalized
      | None \<Rightarrow>
          (case (if truthy item \<and> typeofObject item
                 then probeSources pg modelKey (imageSources item) else None) of
             Some normalized \<Rightarrow> Some normalized
           | None \<Rightarrow> scanItems pg modelKey items))"

text \<open>\<open>prediction.output ?? prediction.images ?? null\<close>\<close>

definition outputOf :: "json \<Rightarrow> json" where
  "outputOf prediction =
     coalesce (getField prediction ''output'') (coalesce (getField prediction ''images'') JNull)"

text \<open>The body of \<open>extractImageUrl\<close> once \<open>output\<close> is fixed.\<close>

definition fromOutput :: "page \<Rightarrow> string option \<Rightarrow> json \<Rightarrow> string option" where
  "fromOutput pg modelKey output =
     (if isString output then normalizeImageValue pg output modelKey
      else (case (if isArray output then scanItems pg modelKey (itemsOf output) else None) of
              Some normalized \<Rightarrow> Some normalized
            | None \<Rightarrow>
                if truthy output \<and> typeofObject output
                then probeSources pg modelKey (imageSources output)
                else None))"

definition extractImageUrl :: "page \<Rightarrow> json \<Rightarrow> string option \<Rightarrow> string option" where
  "extractImageUrl pg prediction modelKey =
     (if \<not> truthy prediction then None
      else fromOutput pg modelKey (outputOf prediction))"

text \<open>The page as it is loaded: \<open>png\<close> for seedream, \<open>jpg\<close> for nano-banana, seedream active.\<close>

definition initialPage :: page where
  "initialPage =
     \<lparr> modelStates =
         [(''seedream'', \<lparr> downloadExtension = ''png'', defaultDownloadExtension = ''png'' \<rparr>),
          (''nano-banana'', \<lparr> downloadExtension = ''jpg'', defaultDownloadExtension = ''jpg'' \<rparr>)],
       activeModelKey = ''seedream'' \<rparr>"

section \<open>Notions used in the statements\<close>

text \<open>
  The job snapshots a run can hold, in order: the created job, then the answer of each
  poll. After \<open>n\<close> polls the snapshot in memory is the \<open>n\<close>-th of them.
\<close>

definition snapshots :: "fetched \<Rightarrow> round list \<Rightarrow> json list" where
  "snapshots createResponse rounds =
     fetched_json createResponse # map (\<lambda>r. fetched_json (answer r)) rounds"

text \<open>A snapshot that keeps the loop going: a job (not \<open>null\<close>) whose status is not terminal.\<close>

definition inFlight :: "json \<Rightarrow> bool" where
  "inFlight prediction = (\<not> nullish prediction \<and> \<not> isTerminal prediction)"

text \<open>A value that \<open>String(v)\<close> converts without throwing.\<close>

definition printable :: "json \<Rightarrow> bool" where
  "printable v = (\<not> isl (toStringJS v))"

text \<open>The read requests among the requests sent.\<close>

definition reads :: "request list \<Rightarrow> nat" where
  "reads sent = length (filter isRead sent)"

text \<open>An environment with every variable set, a 10 ms poll interval and a 25 ms budget.\<close>

definition exampleEnvironment :: environment where
  "exampleEnvironment =
     \<lparr> REPLICATE_API_TOKEN = Some ''r8_token'',
       REPLICATE_SEEDREAM_VERSION = Some ''seedream-v4'',
       REPLICATE_MODEL_VERSION = None,
       REPLICATE_NANO_BANANA_VERSION = Some ''nano-banana-v1'',
       REPLICATE_DEFAULT_MODEL_KEY = None,
       REPLICATE_REFINE_MODEL_VERSION = Some ''gpt-5-mini-v1'',
       pollIntervalMs = 10,
       waitTimeoutMs = 25 \<rparr>"

definition job :: "string \<Rightarrow> json \<Rightarrow> json" where
  "job st output = JObj [(''id'', JStr ''p1''), (''status'', JStr st), (''output'', output)]"

text \<open>Four rounds that each take exactly the interval and answer with a job still processing.\<close>

definition processingRounds :: "round list" where
  "processingRounds = replicate 4 (Round 0 (Fetched True 200 (job ''processing'' JNull)))"

text \<open>
  The request \<open>{model_key: "nano-banana", prompt: "a cat"}\<close>, and the request body the
  example environment makes of it for the provider.
\<close>

definition catRequest :: json where
  "catRequest = JObj [(''model_key'', JStr ''nano-banana''), (''prompt'', JStr ''a cat'')]"

definition catNormalized :: json where
  "catNormalized =
     JObj [(''version'', JStr ''nano-banana-v1''),
           (''input'', JObj [(''prompt'', JStr ''a cat''),
                             (''aspect_ratio'', JStr ''16:9''),
                             (''output_format'', JStr ''jpg'')])]"

text \<open>The fields of the two variants of the provider input.\<close>

definition seedreamFields :: "string set" where
  "seedreamFields =
     {''prompt'', ''size'', ''aspect_ratio'', ''sequential_image_generation'', ''max_images'',
      ''width'', ''height'', ''image_input''}"

definition nanoBananaFields :: "string set" where
  "nanoBananaFields = {''prompt'', ''aspect_ratio'', ''output_format'', ''image_input''}"

text \<open>
  A seedream request of custom size whose width does not parse; a request whose
  \<open>max_images\<close> is the object \<open>{toString: 1}\<close>; a request of custom size whose width is
  the number \<open>10^21\<close> and whose height is the number 1500.7; and two requests whose prompt
  is blank, one for a configured model, one for a model key that is not known.
\<close>

definition customRequest :: json where
  "customRequest =
     JObj [(''model_key'', JStr ''seedream''), (''prompt'', JStr ''a cat''),
           (''size'', JStr ''custom''), (''width'', JStr ''abc''), (''height'', JStr ''2000'')]"

definition unprintableRequest :: json where
  "unprintableRequest =
     JObj [(''prompt'', JStr ''a cat''), (''max_images'', JObj [(''toString'', JNum ''1'')])]"


definition blankPromptRequest :: json where
  "blankPromptRequest = JObj [(''model_key'', JStr ''nano-banana''), (''prompt'', JStr ''   '')]"

definition unknownModelRequest :: json where
  "unknownModelRequest = JObj [(''model_key'', JStr ''foo''), (''prompt'', JStr ''   '')]"

section \<open>The specification's reading of two normalisations\<close>

text \<open>
  The size rule as the specification words it: the case of the value is adjusted and
  nothing else; \<open>custom\<close> when the lower-cased value is \<open>custom\<close>, the upper-cased value
  when that is one of \<open>1K\<close>, \<open>2K\<close>, \<open>4K\<close>, and \<open>2K\<close> for anything else.
\<close>

definition spec_normalizeSize :: "json \<Rightarrow> string" where
  "spec_normalizeSize rawValue =
     (if isString rawValue then
        (if toLowerCase (stringOf rawValue) = ''custom'' then ''custom''
         else if toUpperCase (stringOf rawValue) \<in> set [''1K'', ''2K'', ''4K'']
         then toUpperCase (stringOf rawValue)
         else ''2K'')
      else ''2K'')"

text \<open>
  The image candidate rule as the specification words it, on the candidate string itself
  and with the character classes written out: kept when it starts with a scheme; wrapped
  as a data URI when it is made of base64 characters and white space and is longer than
  100, with the expected format reduced to its letters and digits (\<open>jpeg\<close> when none is
  left) as the subtype and the white space taken out of the payload; rejected otherwise.
\<close>

definition spec_whiteSpace :: string where
  "spec_whiteSpace = [CHR 0x09, CHR 0x0A, CHR 0x0B, CHR 0x0C, CHR 0x0D, CHR 0x20, CHR 0xA0]"

text \<open>Trimming: the white space taken off both ends.\<close>

definition spec_trimmed :: "string \<Rightarrow> string" where
  "spec_trimmed s =
     rev (dropWhile (\<lambda>c. c \<in> set spec_whiteSpace)
            (rev (dropWhile (\<lambda>c. c \<in> set spec_whiteSpace) s)))"

definition spec_alphanumerics :: string where
  "spec_alphanumerics = ''ABCDEFGHIJKLMNOPQRSTUVWXYZabcdefghijklmnopqrstuvwxyz0123456789''"

definition spec_subtype :: "string \<Rightarrow> string" where
  "spec_subtype expected =
     (if filter (\<lambda>c. c \<in> set spec_alphanumerics) expected = [] then ''jpeg''
      else filter (\<lambda>c. c \<in> set spec_alphanumerics) expected)"

definition spec_normalizeImageValue :: "string \<Rightarrow> string \<Rightarrow> string option" where
  "spec_normalizeImageValue expected candidate =
     (if prefix ''http://'' candidate \<or> prefix ''https://'' candidate
         \<or> prefix ''data:'' candidate
      then Some candidate
      else if candidate \<noteq> []
              \<and> set candidate \<subseteq> set (spec_alphanumerics @ ''+/='' @ spec_whiteSpace)
              \<and> length candidate > 100
      then Some (''data:image/'' @ spec_subtype expected @ '';base64,''
                 @ filter (\<lambda>c. c \<notin> set spec_whiteSpace) candidate)
      else None)"

text \<open>
  Two base64 candidates: 100 letters followed by a space, and a padded payload of 106
  characters with a line break inside.
\<close>

definition paddedBase64 :: string where
  "paddedBase64 = replicate 100 (CHR ''A'') @ '' ''"

definition wrappedExample :: string where
  "wrappedExample = '' '' @ replicate 101 (CHR ''A'') @ [CHR 0x0A] @ ''QUJD'' @ '' ''"

section \<open>Candidates of an array output\<close>

text \<open>
  What one element of an array output offers to \<open>normalizeImageValue\<close>, in order: a
  string offers itself, an object (or array) its four fields, anything else nothing.
\<close>

definition itemSources :: "json \<Rightarrow> json list" where
  "itemSources item =
     (if isString item then [item]
      else if truthy item \<and> typeofObject item then imageSources item
      else [])"

text \<open>
  The specification's reading: an object element has one candidate, the first of its four
  fields that is a string; the result is the first candidate that normalizes.
\<close>

definition spec_itemCandidate :: "json \<Rightarrow> json option" where
  "spec_itemCandidate item =
     (if isString item then Some item
      else if truthy item \<and> typeofObject item then find isString (imageSources item)
      else None)"

definition spec_extractImageList :: "page \<Rightarrow> string option \<Rightarrow> json list \<Rightarrow> string option" where
  "spec_extractImageList pg modelKey items =
     probeSources pg modelKey (List.map_filter spec_itemCandidate items)"

text \<open>
  An element whose \<open>image\<close> is a string that is no image reference and whose \<open>url\<close> is
  one; a job with no \<open>output\<close> and an object under \<open>images\<close>.
\<close>

definition twoFieldItem :: json where
  "twoFieldItem =
     JObj [(''image'', JStr ''pending''), (''url'', JStr ''https://example.com/a.png'')]"

definition imagesOnlyJob :: json where
  "imagesOnlyJob =
     JObj [(''id'', JStr ''p2''), (''status'', JStr ''succeeded''), (''output'', JNull),
           (''images'', JObj [(''image'', JNum ''1''), (''uri'', JStr '' data:image/png;base64,QUJD''),
                              (''path'', JStr ''https://example.com/b.png'')])]"

section \<open>Examples for the text path\<close>

text \<open>
  A refine request whose prompt has white space around it; a job whose first candidate
  with any text is a \<open>content\<close> piece of the third output element; a job with six lines
  of logs and nothing else.
\<close>

definition paddedPromptRequest :: json where
  "paddedPromptRequest = JObj [(''prompt'', JStr ''  a cat  '')]"

definition chattyJob :: json where
  "chattyJob =
     JObj [(''status'', JStr ''succeeded''),
           (''output'', JArr [JStr ''  '', JNum ''7'',
                              JObj [(''text'', JStr '' ''),
                                    (''content'', JArr [JObj [(''text'', JStr '' a tabby cat '')],
                                                        JStr ''later''])]]),
           (''output_text'', JStr ''from output_text''),
           (''logs'', JStr ''from logs'')]"

definition logsJob :: json where
  "logsJob =
     JObj [(''status'', JStr ''succeeded''),
           (''logs'', JStr (''l1'' @ [CHR 0x0A] @ ''l2'' @ [CHR 0x0A] @ ''l3'' @ [CHR 0x0A]
                            @ ''l4'' @ [CHR 0x0A] @ ''l5'' @ [CHR 0x0A] @ ''l6''))]"

section \<open>The text candidates as the specification lists them\<close>

text \<open>
  The candidates of a job, as texts and in the order of the specification: a string
  \<open>output\<close>; for each element of a list \<open>output\<close> the string itself, or for an object
  its string \<open>text\<close>, its string \<open>message\<close>, and the pieces of its \<open>content\<close> list
  that are strings or objects with a string \<open>text\<close>; a string \<open>output_text\<close>; the
  last five lines of a string \<open>logs\<close> joined by single spaces. A field is read from the
  object's own entries; lines are the stretches between line feeds; trimming takes the
  seven white-space characters off both ends.
\<close>

definition spec_stringField :: "(string \<times> json) list \<Rightarrow> string \<Rightarrow> string list" where
  "spec_stringField props k = (case map_of props k of Some (JStr t) \<Rightarrow> [t] | _ \<Rightarrow> [])"

fun spec_pieceTexts :: "json \<Rightarrow> string list" where
  "spec_pieceTexts (JStr s) = [s]"
| "spec_pieceTexts (JObj props) = spec_stringField props ''text''"
| "spec_pieceTexts v = []"

fun spec_itemTexts :: "json \<Rightarrow> string list" where
  "spec_itemTexts (JStr s) = [s]"
| "spec_itemTexts (JObj props) =
     spec_stringField props ''text''
     @ spec_stringField props ''message''
     @ (case map_of props ''content'' of
          Some (JArr pieces) \<Rightarrow> concat (map spec_pieceTexts pieces)
        | _ \<Rightarrow> [])"
| "spec_itemTexts v = []"

function spec_lines :: "string \<Rightarrow> string list" where
  "spec_lines s =
     (if CHR 0x0A \<in> set s
      then takeWhile (\<lambda>c. c \<noteq> CHR 0x0A) s
           # spec_lines (tl (dropWhile (\<lambda>c. c \<noteq> CHR 0x0A) s))
      else [s])"
  by pat_completeness auto
termination
proof (relation "measure length")
  show "wf (measure length)"
    by simp
next
  fix s :: string
  assume "CHR 0x0A \<in> set s"
  then have "dropWhile (\<lambda>c. c \<noteq> CHR 0x0A) s \<noteq> []"
    by (simp add: dropWhile_eq_Nil_conv)
  then have "length (tl (dropWhile (\<lambda>c. c \<noteq> CHR 0x0A) s))
      < length (dropWhile (\<lambda>c. c \<noteq> CHR 0x0A) s)"
    by (cases "dropWhile (\<lambda>c. c \<noteq> CHR 0x0A) s") simp_all
  also have "\<dots> \<le> length s"
    by (rule length_dropWhile_le)
  finally show "(tl (dropWhile (\<lambda>c. c \<noteq> CHR 0x0A) s), s) \<in> measure length"
    by simp
qed

declare spec_lines.simps [simp del]

definition spec_lastFiveLines :: "string \<Rightarrow> string" where
  "spec_lastFiveLines logs =
     (case rev (take 5 (rev (spec_lines logs))) of
        [] \<Rightarrow> []
      | line # others \<Rightarrow> line @ concat (map (\<lambda>l. CHR 0x20 # l) others))"

fun spec_textCandidates :: "json \<Rightarrow> string list" where
  "spec_textCandidates (JObj props) =
     (case map_of props ''output'' of
        Some (JStr s) \<Rightarrow> [s]
      | Some (JArr items) \<Rightarrow> concat (map spec_itemTexts items)
      | _ \<Rightarrow> [])
     @ spec_stringField props ''output_text''
     @ (case map_of props ''logs'' of
          Some (JStr logs) \<Rightarrow> [spec_lastFiveLines logs]
        | _ \<Rightarrow> [])"
| "spec_textCandidates v = []"

definition spec_extractText :: "json \<Rightarrow> string" where
  "spec_extractText prediction =
     (case find (\<lambda>c. spec_trimmed c \<noteq> []) (spec_textCandidates prediction) of
        None \<Rightarrow> []
      | Some c \<Rightarrow> spec_trimmed c)"

text \<open>Jobs whose candidates sit in an order other than the one they are probed in.\<close>

definition orderedItemJob :: json where
  "orderedItemJob =
     JObj [(''logs'', JStr ''from logs''),
           (''output_text'', JStr ''from output_text''),
           (''output'', JArr [JObj [(''content'', JArr [JStr ''from content'']),
                                    (''message'', JStr ''from message''),
                                    (''text'', JStr '' from text '')],
                              JStr ''second element''])]"

definition messageJob :: json where
  "messageJob =
     JObj [(''output'', JArr [JObj [(''content'', JArr [JStr ''from content'']),
                                    (''message'', JStr ''from message''),
                                    (''text'', JNum ''7'')],
                              JStr ''second element''])]"

definition outputTextJob :: json where
  "outputTextJob =
     JObj [(''logs'', JStr ''from logs''),
           (''output_text'', JStr ''from output_text''),
           (''output'', JArr [JNum ''7'', JObj [(''text'', JStr ''  '')], JStr []])]"

section \<open>Properties\<close>

subsection \<open>The polling loop\<close>

lemma beforeSleep_None:
  "beforeSleep T el p = None \<longleftrightarrow> \<not> nullish p \<and> \<not> isTerminal p \<and> el \<le> T"
  by (auto simp: beforeSleep_def)

lemma beforePoll_sent: "beforePoll T el p = Inr ident \<Longrightarrow> el \<le> T"
  by (auto simp: beforePoll_def beforeSleep_None split: option.splits sum.splits)

lemma beforePoll_late: "T < el \<Longrightarrow> \<exists>out. beforePoll T el p = Inl out"
  by (cases "beforePoll T el p") (auto dest: beforePoll_sent)

lemma pollLoop_stop:
  "beforePoll T el p = Inl out \<Longrightarrow> pollLoop I T tok el p rs = (Some out, [])"
  by (cases rs) simp_all

lemma pollLoop_fail:
  "beforePoll T el p = Inr ident \<Longrightarrow> \<not> ok (answer r) \<Longrightarrow>
   pollLoop I T tok el p (r # rs) =
     (Some (Inl (failedRequest (answer r) ''Failed while polling prediction status.'')),
      [ReadRequest tok ident])"
  by (simp add: Let_def)

lemma pollLoop_go:
  "beforePoll T el p = Inr ident \<Longrightarrow> ok (answer r) \<Longrightarrow>
   pollLoop I T tok el p (r # rs) =
     (fst (pollLoop I T tok (el + I + overrun r) (fetched_json (answer r)) rs),
      ReadRequest tok ident
        # snd (pollLoop I T tok (el + I + overrun r) (fetched_json (answer r)) rs))"
  by (simp add: Let_def split: prod.splits)

lemma pollLoop_Nil:
  "pollLoop I T tok el p [] =
     (case beforePoll T el p of Inl out \<Rightarrow> (Some out, []) | Inr ident \<Rightarrow> (None, []))"
  by simp

declare pollLoop.simps [simp del]

lemma round_budget:
  fixes I T el d :: nat
  assumes "0 < I" "el + I + d \<le> T"
  shows "(T - (el + I + d)) div I + 1 \<le> (T - el) div I"
proof -
  have "(T - (el + I + d)) div I + 1 = (T - (el + I + d) + I) div I"
    using assms(1) by simp
  also have "\<dots> \<le> (T - el) div I"
    by (rule div_le_mono) (use assms(2) in linarith)
  finally show ?thesis .
qed

lemma pollLoop_reads:
  assumes "0 < I"
  shows "length (snd (pollLoop I T tok el p rs)) \<le> (if el > T then 0 else (T - el) div I + 1)"
proof (induction rs arbitrary: el p)
  case Nil
  show ?case by (simp add: pollLoop_Nil split: sum.splits)
next
  case (Cons r rs)
  show ?case
  proof (cases "beforePoll T el p")
    case (Inl out)
    then show ?thesis by (simp add: pollLoop_stop)
  next
    case (Inr ident)
    then have le: "el \<le> T" by (rule beforePoll_sent)
    show ?thesis
    proof (cases "ok (answer r)")
      case False
      with Inr le show ?thesis by (simp add: pollLoop_fail)
    next
      case True
      let ?el' = "el + I + overrun r"
      have ih: "length (snd (pollLoop I T tok ?el' (fetched_json (answer r)) rs))
                 \<le> (if ?el' > T then 0 else (T - ?el') div I + 1)"
        by (rule Cons.IH)
      have "length (snd (pollLoop I T tok ?el' (fetched_json (answer r)) rs)) \<le> (T - el) div I"
      proof (cases "?el' > T")
        case True
        with ih show ?thesis by simp
      next
        case False
        then have "(T - ?el') div I + 1 \<le> (T - el) div I"
          using round_budget [OF assms, of el "overrun r" T] by simp
        with ih False show ?thesis by simp
      qed
      with Inr True le show ?thesis by (simp add: pollLoop_go)
    qed
  qed
qed

lemma pollLoop_all_reads: "list_all isRead (snd (pollLoop I T tok el p rs))"
proof (induction rs arbitrary: el p)
  case Nil
  show ?case by (simp add: pollLoop_Nil split: sum.splits)
next
  case (Cons r rs)
  show ?case
  proof (cases "beforePoll T el p")
    case (Inl out)
    then show ?thesis by (simp add: pollLoop_stop)
  next
    case (Inr ident)
    then show ?thesis
      using Cons.IH by (cases "ok (answer r)") (simp_all add: pollLoop_go pollLoop_fail)
  qed
qed

lemma pollLoop_returns:
  assumes "0 < I"
  shows "T < el \<or> (T - el) div I < length rs \<Longrightarrow> fst (pollLoop I T tok el p rs) \<noteq> None"
proof (induction rs arbitrary: el p)
  case Nil
  then have "T < el" by simp
  then obtain out where "beforePoll T el p = Inl out"
    using beforePoll_late by blast
  then show ?case by (simp add: pollLoop_stop)
next
  case (Cons r rs)
  show ?case
  proof (cases "beforePoll T el p")
    case (Inl out)
    then show ?thesis by (simp add: pollLoop_stop)
  next
    case (Inr ident)
    then have le: "el \<le> T" by (rule beforePoll_sent)
    show ?thesis
    proof (cases "ok (answer r)")
      case False
      with Inr show ?thesis by (simp add: pollLoop_fail)
    next
      case True
      let ?el' = "el + I + overrun r"
      have "T < ?el' \<or> (T - ?el') div I < length rs"
      proof (cases "T < ?el'")
        case True
        then show ?thesis by simp
      next
        case False
        then have "(T - ?el') div I + 1 \<le> (T - el) div I"
          using round_budget [OF assms, of el "overrun r" T] by simp
        moreover have "(T - el) div I < Suc (length rs)"
          using Cons.prems le by simp
        ultimately show ?thesis by simp
      qed
      then have "fst (pollLoop I T tok ?el' (fetched_json (answer r)) rs) \<noteq> None"
        by (rule Cons.IH)
      with Inr True show ?thesis by (simp add: pollLoop_go)
    qed
  qed
qed

lemma beforePoll_inFlight:
  assumes "inFlight p" and "printable (getField p ''id'')"
  shows "beforePoll T el p =
           (if T < el
            then Inl (Inl (StatusError
                   ''Timed out while waiting for Replicate prediction to finish.'' 504 p))
            else (case toStringJS (getField p ''id'') of
                    Inr ident \<Rightarrow> Inr ident | Inl err \<Rightarrow> Inl (Inl err)))"
  using assms
  by (simp add: beforePoll_def beforeSleep_def inFlight_def printable_def split: sum.splits)

lemma pollLoop_inFlight:
  assumes "list_all (\<lambda>r. ok (answer r) \<and> inFlight (fetched_json (answer r))
                        \<and> printable (getField (fetched_json (answer r)) ''id'')) rs"
    and "inFlight p" and "printable (getField p ''id'')"
    and "fst (pollLoop I T tok el p rs) = Some out"
  shows "out = Inl (StatusError
                 ''Timed out while waiting for Replicate prediction to finish.'' 504
                 ((p # map (\<lambda>r. fetched_json (answer r)) rs)
                    ! length (snd (pollLoop I T tok el p rs))))"
  using assms
proof (induction rs arbitrary: el p)
  case Nil
  then show ?case
    by (auto simp: pollLoop_Nil beforePoll_inFlight printable_def split: if_splits sum.splits)
next
  case (Cons r rs)
  show ?case
  proof (cases "T < el")
    case True
    with Cons.prems show ?thesis
      by (simp add: pollLoop_stop beforePoll_inFlight)
  next
    case False
    from Cons.prems(3) obtain ident where "toStringJS (getField p ''id'') = Inr ident"
      by (cases "toStringJS (getField p ''id'')") (simp_all add: printable_def)
    with False have go: "beforePoll T el p = Inr ident"
      using Cons.prems(2,3) by (simp add: beforePoll_inFlight)
    have okr: "ok (answer r)" and fl: "inFlight (fetched_json (answer r))"
      and pr: "printable (getField (fetched_json (answer r)) ''id'')"
      and rest: "list_all (\<lambda>r. ok (answer r) \<and> inFlight (fetched_json (answer r))
                        \<and> printable (getField (fetched_json (answer r)) ''id'')) rs"
      using Cons.prems(1) by simp_all
    have "fst (pollLoop I T tok (el + I + overrun r) (fetched_json (answer r)) rs) = Some out"
      using Cons.prems(4) go okr by (simp add: pollLoop_go)
    from Cons.IH [OF rest fl pr this] go okr show ?thesis
      by (simp add: pollLoop_go)
  qed
qed

lemma createAndPoll_fail:
  "\<not> ok c \<Longrightarrow>
   createAndPollPrediction e tok b c rs =
     (Some (Inl (failedRequest c ''Failed to create prediction.'')), [CreateRequest tok b])"
  by (simp add: createAndPollPrediction_def Let_def)

lemma createAndPoll_ok:
  "ok c \<Longrightarrow>
   createAndPollPrediction e tok b c rs =
     (fst (pollLoop (pollIntervalMs e) (waitTimeoutMs e) tok 0 (fetched_json c) rs),
      CreateRequest tok b
        # snd (pollLoop (pollIntervalMs e) (waitTimeoutMs e) tok 0 (fetched_json c) rs))"
  by (simp add: createAndPollPrediction_def split: prod.splits)

lemma reads_pollLoop:
  "reads (snd (pollLoop I T tok el p rs)) = length (snd (pollLoop I T tok el p rs))"
  using pollLoop_all_reads [of I T tok el p rs]
  by (simp add: reads_def list_all_iff)

lemma reads_Create: "reads (CreateRequest tok b # xs) = reads xs"
  by (simp add: reads_def)

lemma reads_createAndPoll:
  "reads (snd (createAndPollPrediction e tok b c rs)) =
     (if ok c then length (snd (pollLoop (pollIntervalMs e) (waitTimeoutMs e) tok 0
                                  (fetched_json c) rs))
      else 0)"
proof (cases "ok c")
  case True
  then show ?thesis by (simp add: createAndPoll_ok reads_Create reads_pollLoop)
next
  case False
  then show ?thesis by (simp add: createAndPoll_fail reads_def)
qed

lemma predictionsHandler_run:
  assumes "present (REPLICATE_API_TOKEN e)" and "normalizeRequest e reqBody = Inr rb"
    and "fst (createAndPollPrediction e (case REPLICATE_API_TOKEN e of Some t \<Rightarrow> t | None \<Rightarrow> [])
                rb c rounds) = Some out"
  shows "fst (predictionsHandler e reqBody c rounds) =
           Some (case out of
                   Inl err \<Rightarrow> caught err
                 | Inr (p, el) \<Rightarrow> Response 200 (PredictionReply el p))"
proof -
  obtain res sent where run:
    "createAndPollPrediction e (case REPLICATE_API_TOKEN e of Some t \<Rightarrow> t | None \<Rightarrow> [])
       rb c rounds = (res, sent)"
    by (cases "createAndPollPrediction e
                 (case REPLICATE_API_TOKEN e of Some t \<Rightarrow> t | None \<Rightarrow> []) rb c rounds")
  with assms(3) have "res = Some out"
    by simp
  with assms(1,2) run show ?thesis
    by (cases out) (auto simp: predictionsHandler_def)
qed


text \<open>
  Claim C1. With a positive poll interval, every run of \<open>createAndPollPrediction\<close> sends
  at most \<open>waitTimeoutMs div pollIntervalMs + 1\<close> read requests, which is at most the
  ceiling of timeout over interval plus one (3 for an interval of 10 ms and a budget of
  25 ms), because the elapsed time is compared with the budget at the head of each
  iteration, before the sleep. If the create request succeeds, every poll is answered
  successfully, and the created job and every answer is a job whose status is not
  terminal (and whose id can be put into the poll URL), then the run ends, and it ends
  by throwing the error \<open>Timed out while waiting for Replicate prediction to finish.\<close>
  with status 504 and, as details, the last snapshot received; the \<open>/api/predictions\<close>
  handler then answers 504 with that message and that snapshot.
\<close>

theorem poll_budget:
  assumes "0 < pollIntervalMs e"
  shows "reads (snd (createAndPollPrediction e token reqBody createResponse rounds))
           \<le> waitTimeoutMs e div pollIntervalMs e + 1
       \<and> int (reads (snd (createAndPollPrediction e token reqBody createResponse rounds)))
           \<le> \<lceil>real (waitTimeoutMs e) / real (pollIntervalMs e)\<rceil> + 1
       \<and> (ok createResponse
            \<and> list_all (\<lambda>p. inFlight p \<and> printable (getField p ''id''))
                 (snapshots createResponse rounds)
            \<and> list_all (\<lambda>r. ok (answer r)) rounds
            \<and> waitTimeoutMs e div pollIntervalMs e < length rounds
          \<longrightarrow> fst (createAndPollPrediction e token reqBody createResponse rounds)
                = Some (Inl (StatusError
                    ''Timed out while waiting for Replicate prediction to finish.'' 504
                    (snapshots createResponse rounds
                       ! reads (snd (createAndPollPrediction e token reqBody
                                       createResponse rounds)))))
              \<and> (present (REPLICATE_API_TOKEN e) \<and> normalizeRequest e body = Inr reqBody
                  \<and> token = (case REPLICATE_API_TOKEN e of Some t \<Rightarrow> t | None \<Rightarrow> [])
                 \<longrightarrow> fst (predictionsHandler e body createResponse rounds)
                       = Some (Response 504 (ErrorReply
                           ''Timed out while waiting for Replicate prediction to finish.''
                           (snapshots createResponse rounds
                              ! reads (snd (createAndPollPrediction e token reqBody
                                              createResponse rounds)))))))"
proof -
  let ?I = "pollIntervalMs e" and ?T = "waitTimeoutMs e"
  let ?run = "createAndPollPrediction e token reqBody createResponse rounds"
  let ?loop = "pollLoop ?I ?T token 0 (fetched_json createResponse) rounds"
  let ?timedOut = "StatusError ''Timed out while waiting for Replicate prediction to finish.''
      504 (snapshots createResponse rounds ! reads (snd ?run))"
  have bound: "reads (snd ?run) \<le> ?T div ?I + 1"
    using pollLoop_reads [OF assms, of ?T token 0 "fetched_json createResponse" rounds]
    by (simp add: reads_createAndPoll)
  have "int (?T div ?I) = \<lfloor>real ?T / real ?I\<rfloor>"
    by (simp add: floor_divide_of_nat_eq)
  also have "\<dots> \<le> \<lceil>real ?T / real ?I\<rceil>"
    by (rule floor_le_ceiling)
  finally have "int (?T div ?I + 1) \<le> \<lceil>real ?T / real ?I\<rceil> + 1"
    by simp
  with bound have ceil: "int (reads (snd ?run)) \<le> \<lceil>real ?T / real ?I\<rceil> + 1"
    by linarith
  have timeout: "fst ?run = Some (Inl ?timedOut)"
    if c: "ok createResponse"
      and fl: "list_all (\<lambda>p. inFlight p \<and> printable (getField p ''id''))
                 (snapshots createResponse rounds)"
      and oks: "list_all (\<lambda>r. ok (answer r)) rounds"
      and enough: "?T div ?I < length rounds"
  proof -
    have "fst ?loop \<noteq> None"
      using pollLoop_returns [OF assms, of ?T 0 rounds token "fetched_json createResponse"] enough
      by simp
    then obtain out where out: "fst ?loop = Some out"
      by blast
    have each: "list_all (\<lambda>r. ok (answer r) \<and> inFlight (fetched_json (answer r))
                        \<and> printable (getField (fetched_json (answer r)) ''id'')) rounds"
      using fl oks by (simp add: snapshots_def list_all_iff)
    have first: "inFlight (fetched_json createResponse)"
        "printable (getField (fetched_json createResponse) ''id'')"
      using fl by (simp_all add: snapshots_def)
    from pollLoop_inFlight [OF each first out] out c show ?thesis
      by (simp add: createAndPoll_ok reads_Create reads_pollLoop snapshots_def)
  qed
  have answered: "fst (predictionsHandler e body createResponse rounds)
        = Some (Response 504 (ErrorReply
            ''Timed out while waiting for Replicate prediction to finish.''
            (snapshots createResponse rounds ! reads (snd ?run))))"
    if run: "fst ?run = Some (Inl ?timedOut)"
      and tok: "present (REPLICATE_API_TOKEN e)" and rb: "normalizeRequest e body = Inr reqBody"
      and t: "token = (case REPLICATE_API_TOKEN e of Some t \<Rightarrow> t | None \<Rightarrow> [])"
    using predictionsHandler_run [OF tok rb, of createResponse rounds "Inl ?timedOut"] run t
    by simp
  from bound ceil timeout answered show ?thesis
    by blast
qed

theorem poll_budget_witness:
  "reads (snd (createAndPollPrediction exampleEnvironment ''r8_token'' catNormalized
                 (Fetched True 201 (job ''starting'' JNull)) processingRounds)) = 3
   \<and> (3::nat) = 25 div 10 + 1
   \<and> fst (createAndPollPrediction exampleEnvironment ''r8_token'' catNormalized
            (Fetched True 201 (job ''starting'' JNull)) processingRounds)
       = Some (Inl (StatusError ''Timed out while waiting for Replicate prediction to finish.''
                      504 (job ''processing'' JNull)))
   \<and> fst (predictionsHandler exampleEnvironment catRequest
            (Fetched True 201 (job ''starting'' JNull)) processingRounds)
       = Some (Response 504 (ErrorReply
                 ''Timed out while waiting for Replicate prediction to finish.''
                 (job ''processing'' JNull)))"
proof -
  let ?c = "Fetched True 201 (job ''starting'' JNull)"
  let ?run = "createAndPollPrediction exampleEnvironment ''r8_token'' catNormalized ?c
      processingRounds"
  have pos: "0 < pollIntervalMs exampleEnvironment"
    by (simp add: exampleEnvironment_def)
  have n: "reads (snd ?run) = 3"
    by code_simp
  have pre: "ok ?c
      \<and> list_all (\<lambda>p. inFlight p \<and> printable (getField p ''id'')) (snapshots ?c processingRounds)
      \<and> list_all (\<lambda>r. ok (answer r)) processingRounds
      \<and> waitTimeoutMs exampleEnvironment div pollIntervalMs exampleEnvironment
          < length processingRounds"
    by code_simp
  have req: "present (REPLICATE_API_TOKEN exampleEnvironment)
      \<and> normalizeRequest exampleEnvironment catRequest = Inr catNormalized
      \<and> ''r8_token'' = (case REPLICATE_API_TOKEN exampleEnvironment of
                           Some t \<Rightarrow> t | None \<Rightarrow> [])"
    by code_simp
  have third: "snapshots ?c processingRounds ! 3 = job ''processing'' JNull"
    by code_simp
  from poll_budget [OF pos, of "''r8_token''" catNormalized ?c processingRounds catRequest]
    pre req n third
  show ?thesis
    by simp
qed

lemma toStringJS_throws:
  shows "toStringJS v = Inl err \<Longrightarrow> err = cannotConvert"
    and "elementStrings vs = Inl err \<Longrightarrow> err = cannotConvert"
  by (induction v and vs rule: toStringJS_elementStrings.induct)
     (auto split: sum.splits if_splits)

lemma isTerminal_iff:
  "isTerminal p \<longleftrightarrow>
     getField p ''status'' \<in> {JStr ''succeeded'', JStr ''failed'', JStr ''canceled''}"
  by (cases "getField p ''status''") (auto simp: isTerminal_def terminalStatuses_def)

lemma beforeSleep_terminal:
  "isTerminal p \<Longrightarrow> beforeSleep T el p = Some (Inr (p, el))"
  by (cases p) (auto simp: beforeSleep_def isTerminal_def)

lemma beforePoll_terminal:
  "isTerminal p \<Longrightarrow> beforePoll T el p = Inl (Inr (p, el))"
  by (simp add: beforePoll_def beforeSleep_terminal)

text \<open>
  Claim C2. A snapshot is terminal exactly when its \<open>status\<close> is one of the three strings
  \<open>succeeded\<close>, \<open>failed\<close>, \<open>canceled\<close>, compared as they are (any other string, and
  any value that is not a string, is not terminal). A job whose status is \<open>failed\<close> or
  \<open>canceled\<close> is returned, not thrown: the loop returns it with the elapsed time when it
  holds it at the head of an iteration, it returns a successful poll's answer that has
  such a status (whenever the poll is sent at all: building the URL throws when the id
  of the snapshot in memory cannot be converted to a string), and the
  \<open>/api/predictions\<close> handler answers 200 with the elapsed time and the job when the
  created job already has such a status.
\<close>

theorem terminal_statuses:
  "(isTerminal p \<longleftrightarrow>
      getField p ''status'' \<in> {JStr ''succeeded'', JStr ''failed'', JStr ''canceled''})
   \<and> (getField p ''status'' \<in> {JStr ''failed'', JStr ''canceled''}
        \<longrightarrow> pollLoop I T token el p rounds = (Some (Inr (p, el)), []))
   \<and> (inFlight p \<and> el \<le> T \<and> ok (answer r)
        \<and> getField (fetched_json (answer r)) ''status'' \<in> {JStr ''failed'', JStr ''canceled''}
        \<longrightarrow> fst (pollLoop I T token el p (r # rounds))
              = (if printable (getField p ''id'')
                 then Some (Inr (fetched_json (answer r), el + I + overrun r))
                 else Some (Inl (TypeError ''Cannot convert object to primitive value''))))
   \<and> (present (REPLICATE_API_TOKEN e) \<and> normalizeRequest e reqBody = Inr rb \<and> ok c
        \<and> getField (fetched_json c) ''status'' \<in> {JStr ''failed'', JStr ''canceled''}
        \<longrightarrow> fst (predictionsHandler e reqBody c rounds)
              = Some (Response 200 (PredictionReply 0 (fetched_json c))))"
proof (intro conjI impI)
  show "isTerminal p \<longleftrightarrow>
      getField p ''status'' \<in> {JStr ''succeeded'', JStr ''failed'', JStr ''canceled''}"
    by (rule isTerminal_iff)
next
  assume "getField p ''status'' \<in> {JStr ''failed'', JStr ''canceled''}"
  then have "isTerminal p"
    by (auto simp: isTerminal_iff)
  then show "pollLoop I T token el p rounds = (Some (Inr (p, el)), [])"
    by (simp add: pollLoop_stop beforePoll_terminal)
next
  assume a: "inFlight p \<and> el \<le> T \<and> ok (answer r)
        \<and> getField (fetched_json (answer r)) ''status'' \<in> {JStr ''failed'', JStr ''canceled''}"
  then have head: "beforeSleep T el p = None"
    by (simp add: beforeSleep_None inFlight_def)
  from a have "isTerminal (fetched_json (answer r))"
    by (auto simp: isTerminal_iff)
  then have next_round:
    "pollLoop I T token (el + I + overrun r) (fetched_json (answer r)) rounds
      = (Some (Inr (fetched_json (answer r), el + I + overrun r)), [])"
    by (simp add: pollLoop_stop beforePoll_terminal)
  show "fst (pollLoop I T token el p (r # rounds))
              = (if printable (getField p ''id'')
                 then Some (Inr (fetched_json (answer r), el + I + overrun r))
                 else Some (Inl (TypeError ''Cannot convert object to primitive value'')))"
  proof (cases "toStringJS (getField p ''id'')")
    case (Inr ident)
    with head have "beforePoll T el p = Inr ident"
      by (simp add: beforePoll_def)
    with a next_round Inr show ?thesis
      by (simp add: pollLoop_go printable_def)
  next
    case (Inl err)
    have "err = TypeError ''Cannot convert object to primitive value''"
      using toStringJS_throws(1) [OF Inl] by (simp add: cannotConvert_def)
    moreover from head Inl have "beforePoll T el p = Inl (Inl err)"
      by (simp add: beforePoll_def)
    ultimately show ?thesis
      using Inl by (simp add: pollLoop_stop printable_def)
  qed
next
  assume a: "present (REPLICATE_API_TOKEN e) \<and> normalizeRequest e reqBody = Inr rb \<and> ok c
        \<and> getField (fetched_json c) ''status'' \<in> {JStr ''failed'', JStr ''canceled''}"
  then have "isTerminal (fetched_json c)"
    by (auto simp: isTerminal_iff)
  then have "fst (createAndPollPrediction e
                (case REPLICATE_API_TOKEN e of Some t \<Rightarrow> t | None \<Rightarrow> []) rb c rounds)
       = Some (Inr (fetched_json c, 0))"
    using a by (simp add: createAndPoll_ok pollLoop_stop beforePoll_terminal)
  with a show "fst (predictionsHandler e reqBody c rounds)
              = Some (Response 200 (PredictionReply 0 (fetched_json c)))"
    by (simp add: predictionsHandler_run)
qed


theorem terminal_statuses_witness:
  "\<not> isTerminal (job ''processing'' JNull)
   \<and> \<not> isTerminal (job ''Failed'' JNull)
   \<and> isTerminal (job ''succeeded'' JNull)
   \<and> pollLoop 10 25 ''r8_token'' 20 (job ''canceled'' JNull) processingRounds
       = (Some (Inr (job ''canceled'' JNull, 20)), [])
   \<and> fst (pollLoop 10 25 ''r8_token'' 20 (job ''starting'' JNull)
             (Round 3 (Fetched True 200 (job ''failed'' JNull)) # processingRounds))
       = Some (Inr (job ''failed'' JNull, 33))
   \<and> fst (predictionsHandler exampleEnvironment catRequest
             (Fetched True 201 (job ''failed'' JNull)) [])
       = Some (Response 200 (PredictionReply 0 (job ''failed'' JNull)))"
proof -
  have s: "getField (job ''processing'' JNull) ''status'' = JStr ''processing''"
      "getField (job ''Failed'' JNull) ''status'' = JStr ''Failed''"
      "getField (job ''succeeded'' JNull) ''status'' = JStr ''succeeded''"
      "getField (job ''canceled'' JNull) ''status'' = JStr ''canceled''"
      "getField (job ''failed'' JNull) ''status'' = JStr ''failed''"
    by (simp_all add: job_def)
  have fl: "inFlight (job ''starting'' JNull)"
      "printable (getField (job ''starting'' JNull) ''id'')"
    by code_simp+
  have rb: "normalizeRequest exampleEnvironment catRequest = Inr catNormalized"
    by code_simp
  have tok: "present (REPLICATE_API_TOKEN exampleEnvironment)"
    by (simp add: exampleEnvironment_def)
  note t = terminal_statuses
  from t [where p = "job ''processing'' JNull"] t [where p = "job ''Failed'' JNull"]
    t [where p = "job ''succeeded'' JNull"]
    t [where p = "job ''canceled'' JNull" and I = 10 and T = 25 and token = "''r8_token''"
         and el = 20 and rounds = processingRounds]
    t [where p = "job ''starting'' JNull" and I = 10 and T = 25 and token = "''r8_token''"
         and el = 20 and r = "Round 3 (Fetched True 200 (job ''failed'' JNull))"
         and rounds = processingRounds]
    t [where e = exampleEnvironment and reqBody = catRequest and rb = catNormalized
         and c = "Fetched True 201 (job ''failed'' JNull)" and rounds = "[]"]
    s fl rb tok
  show ?thesis
    by simp
qed

subsection \<open>Printing and parsing numbers\<close>












subsection \<open>Character classes\<close>

lemma isWhiteSpace_chars: "\<forall>c. isWhiteSpace c = (c \<in> set spec_whiteSpace)"
  by code_simp

lemma trim_spec: "trim s = spec_trimmed s"
proof -
  have "isWhiteSpace = (\<lambda>c. c \<in> set spec_whiteSpace)"
    by (rule ext) (simp add: isWhiteSpace_chars)
  then show ?thesis
    by (simp add: trim_def spec_trimmed_def)
qed


lemma alphanumeric_chars: "\<forall>c. alphanumeric c = (c \<in> set spec_alphanumerics)"
  by code_simp

lemma base64Char_chars:
  "\<forall>c. base64Char c = (c \<in> set (spec_alphanumerics @ ''+/='' @ spec_whiteSpace))"
  by code_simp

subsection \<open>Normalising the request body\<close>

lemma parseInt_throws: "\<not> printable v \<Longrightarrow> parseInt v = Inl cannotConvert"
  by (cases "toStringJS v") (auto simp: parseInt_def printable_def dest: toStringJS_throws(1))

lemma parseInt_printable: "printable v \<Longrightarrow> \<exists>parsed. parseInt v = Inr parsed"
  by (cases "toStringJS v") (auto simp: parseInt_def printable_def)

lemma parseInt_Inr: "parseInt v = Inr parsed \<Longrightarrow> printable v"
  by (cases "toStringJS v") (auto simp: parseInt_def printable_def)

lemma toStringJS_object:
  "toStringJS (JObj fs) =
     (if ''toString'' \<in> fst ` set fs
      then Inl (TypeError ''Cannot convert object to primitive value'')
      else Inr ''[object Object]'')"
  by (simp add: cannotConvert_def)

lemma seedreamPayload_throws:
  assumes "\<not> printable (getField body ''max_images'')
     \<or> (normalizeSize (getField body ''size'') = ''custom''
         \<and> (\<not> printable (getField body ''width'') \<or> \<not> printable (getField body ''height'')))"
  shows "seedreamPayload prompt body = Inl cannotConvert"
proof (cases "printable (getField body ''max_images'')")
  case False
  then show ?thesis
    by (simp add: seedreamPayload_def parseInt_throws)
next
  case True
  then obtain pm where pm: "parseInt (getField body ''max_images'') = Inr pm"
    using parseInt_printable by blast
  from True assms have size: "normalizeSize (getField body ''size'') = ''custom''"
    and wh: "\<not> printable (getField body ''width'') \<or> \<not> printable (getField body ''height'')"
    by blast+
  show ?thesis
  proof (cases "printable (getField body ''width'')")
    case False
    with pm size show ?thesis
      by (simp add: seedreamPayload_def Let_def parseInt_throws)
  next
    case True
    then obtain pw where pw: "parseInt (getField body ''width'') = Inr pw"
      using parseInt_printable by blast
    from True wh have "\<not> printable (getField body ''height'')"
      by blast
    with pm pw size show ?thesis
      by (simp add: seedreamPayload_def Let_def parseInt_throws)
  qed
qed

lemma seedreamPayload_custom:
  assumes "normalizeSize (getField body ''size'') = ''custom''"
    and "parseInt (getField body ''max_images'') = Inr pm"
    and "parseInt (getField body ''width'') = Inr pw"
    and "parseInt (getField body ''height'') = Inr ph"
  shows "seedreamPayload prompt body =
     Inr (JObj ([(''prompt'', JStr prompt),
                 (''size'', JStr ''custom''),
                 (''aspect_ratio'',
                    if isString (getField body ''aspect_ratio'')
                    then getField body ''aspect_ratio'' else JStr ''match_input_image''),
                 (''sequential_image_generation'',
                    if isString (getField body ''sequential_image_generation'')
                    then getField body ''sequential_image_generation'' else JStr ''disabled''),
                 (''max_images'',
                    number (case pm of None \<Rightarrow> 1
                            | Some n \<Rightarrow> clampNumber n (fst MAX_IMAGES_LIMITS)
                                          (snd MAX_IMAGES_LIMITS)))]
                @ dimensionField ''width'' pw @ dimensionField ''height'' ph
                @ imageInputField body))"
  using assms by (simp add: seedreamPayload_def Let_def)

lemma seedreamPayload_preset:
  assumes "normalizeSize (getField body ''size'') \<noteq> ''custom''"
    and "parseInt (getField body ''max_images'') = Inr pm"
  shows "seedreamPayload prompt body =
     Inr (JObj ([(''prompt'', JStr prompt),
                 (''size'', JStr (normalizeSize (getField body ''size''))),
                 (''aspect_ratio'',
                    if isString (getField body ''aspect_ratio'')
                    then getField body ''aspect_ratio'' else JStr ''match_input_image''),
                 (''sequential_image_generation'',
                    if isString (getField body ''sequential_image_generation'')
                    then getField body ''sequential_image_generation'' else JStr ''disabled''),
                 (''max_images'',
                    number (case pm of None \<Rightarrow> 1
                            | Some n \<Rightarrow> clampNumber n (fst MAX_IMAGES_LIMITS)
                                          (snd MAX_IMAGES_LIMITS)))]
                @ imageInputField body))"
  using assms by (simp add: seedreamPayload_def Let_def)

lemma keys_dimensionField: "set (map fst (dimensionField k parsed)) \<subseteq> {k}"
  by (cases parsed) (simp_all add: dimensionField_def)

lemma keys_imageInputField: "set (map fst (imageInputField body)) \<subseteq> {''image_input''}"
  by (auto simp: imageInputField_def)

lemma seedreamPayload_ok:
  assumes "printable (getField body ''max_images'')"
    and "normalizeSize (getField body ''size'') = ''custom''
         \<longrightarrow> printable (getField body ''width'') \<and> printable (getField body ''height'')"
  shows "\<exists>input. seedreamPayload prompt body = Inr input
           \<and> getField input ''prompt'' = JStr prompt
           \<and> set (keysOf input) \<subseteq> seedreamFields"
proof -
  obtain pm where pm: "parseInt (getField body ''max_images'') = Inr pm"
    using assms(1) parseInt_printable by blast
  show ?thesis
  proof (cases "normalizeSize (getField body ''size'') = ''custom''")
    case True
    with assms(2) obtain pw ph where "parseInt (getField body ''width'') = Inr pw"
        and "parseInt (getField body ''height'') = Inr ph"
      using parseInt_printable by blast
    with True pm show ?thesis
      using keys_dimensionField [of "''width''" pw] keys_dimensionField [of "''height''" ph]
        keys_imageInputField [of body]
      by (auto simp: seedreamPayload_custom seedreamFields_def)
  next
    case False
    with pm show ?thesis
      using keys_imageInputField [of body]
      by (auto simp: seedreamPayload_preset seedreamFields_def)
  qed
qed

lemma keys_nanoBananaPayload:
  "set (keysOf (nanoBananaPayload prompt body)) \<subseteq> nanoBananaFields"
  by (auto simp: nanoBananaPayload_def Let_def imageInputField_def nanoBananaFields_def
        split: if_splits)

lemma prompt_nanoBananaPayload:
  "getField (nanoBananaPayload prompt body) ''prompt'' = JStr prompt"
  by (simp add: nanoBananaPayload_def Let_def)


lemma elementStrings_throws:
  "isl (elementStrings xs) \<longleftrightarrow> (\<exists>x\<in>set xs. isl (toStringJS x))"
proof (induction xs)
  case Nil
  show ?case by simp
next
  case (Cons x xs)
  have "nullish x \<Longrightarrow> \<not> isl (toStringJS x)"
    by (cases x) simp_all
  with Cons show ?case
    by (auto split: sum.splits)
qed

lemma printable_cases:
  "(printable (JObj fs) \<longleftrightarrow> ''toString'' \<notin> fst ` set fs)
   \<and> (printable (JArr xs) \<longleftrightarrow> (\<forall>x\<in>set xs. printable x))
   \<and> printable (JStr s) \<and> printable (JNum printed) \<and> printable (JBool b)
   \<and> printable JNull \<and> printable JUndefined"
proof -
  have "isl (toStringJS (JArr xs)) \<longleftrightarrow> isl (elementStrings xs)"
    by (simp split: sum.splits)
  then have "printable (JArr xs) \<longleftrightarrow> (\<forall>x\<in>set xs. printable x)"
    by (simp add: printable_def elementStrings_throws)
  then show ?thesis
    by (simp add: printable_def)
qed

lemma configured_key:
  assumes "MODEL_CONFIG e k = Some config" and "present (version config)"
  shows "k = ''seedream'' \<or> k = ''nano-banana''"
proof (rule ccontr)
  assume "\<not> (k = ''seedream'' \<or> k = ''nano-banana'')"
  then have "MODEL_CONFIG e k =
      (if k \<in> set inheritedNames then Some (ModelEntry None None) else None)"
    by (simp only: MODEL_CONFIG_def de_Morgan_disj if_False)
  with assms(1) have "config = ModelEntry None None"
    by (simp only: split: if_splits) simp_all
  with assms(2) show False
    by simp
qed

lemma present_Some: "present x \<longleftrightarrow> (\<exists>v. x = Some v \<and> v \<noteq> [])"
  by (cases x) auto

lemma normalizeRequest_input:
  assumes "MODEL_CONFIG e (resolveModelKey e (requestBody reqBody)) = Some config"
    and "version config = Some v" and "v \<noteq> []"
    and "trimmedPrompt (requestBody reqBody) \<noteq> []"
  shows "normalizeRequest e reqBody =
           (case inputPayload (resolveModelKey e (requestBody reqBody))
                   (trimmedPrompt (requestBody reqBody)) (requestBody reqBody) of
              Inl err \<Rightarrow> Inl (caught err)
            | Inr input \<Rightarrow> Inr (JObj [(''version'', JStr v), (''input'', input)]))"
  using assms by (simp add: normalizeRequest_def Let_def split: sum.splits)

lemma lower_nano: "toLowerCase ''nano-banana'' = ''nano-banana''"
  by code_simp

lemma trim_cat: "trim ''a cat'' = ''a cat''"
  by code_simp

lemma normalizeRequest_cat:
  assumes "REPLICATE_NANO_BANANA_VERSION e = Some v" and "v \<noteq> []"
  shows "normalizeRequest e catRequest =
           Inr (JObj [(''version'', JStr v),
                      (''input'', JObj [(''prompt'', JStr ''a cat''),
                                        (''aspect_ratio'', JStr ''16:9''),
                                        (''output_format'', JStr ''jpg'')])])"
proof -
  have body: "requestBody catRequest = catRequest"
    by (simp add: requestBody_def catRequest_def)
  have key: "resolveModelKey e catRequest = ''nano-banana''"
    by (simp add: resolveModelKey_def catRequest_def lower_nano)
  have cfg: "MODEL_CONFIG e ''nano-banana''
      = Some (ModelEntry (Some ''REPLICATE_NANO_BANANA_VERSION'') (Some v))"
    using assms(1) by (simp add: MODEL_CONFIG_def)
  have prompt: "trimmedPrompt catRequest = ''a cat''"
    by (simp add: trimmedPrompt_def catRequest_def trim_cat)
  have "inputPayload ''nano-banana'' ''a cat'' catRequest
      = Inr (JObj [(''prompt'', JStr ''a cat''), (''aspect_ratio'', JStr ''16:9''),
                   (''output_format'', JStr ''jpg'')])"
    by (simp add: inputPayload_def nanoBananaPayload_def imageInputField_def imageInput_def
          catRequest_def)
  with normalizeRequest_input [of e catRequest _ v] body key cfg prompt assms(2)
  show ?thesis by simp
qed

text \<open>
  Claim C3. When the model key of a request resolves to a model with a configured version
  and the prompt is not empty after trimming, the request is normalised to a provider
  input that holds the trimmed prompt and only fields of the resolved model's variant:
  for seedream a subset of prompt, size, aspect_ratio, sequential_image_generation,
  max_images, width, height, image_input; for nano-banana a subset of prompt,
  aspect_ratio, output_format, image_input, which has none of the seedream-only fields.
  The one exception has no input at all: a seedream request in which a value handed to
  \<open>parseInt\<close> (\<open>max_images\<close>, and \<open>width\<close> and \<open>height\<close> for a custom size) cannot be
  converted to a string, that is an object with a \<open>toString\<close> key of its own or an array
  holding such a value, is answered 500 by the \<open>catch\<close> block. For the request
  \<open>{model_key: "nano-banana", prompt: "a cat"}\<close> the input is exactly
  \<open>{prompt: "a cat", aspect_ratio: "16:9", output_format: "jpg"}\<close>.
\<close>

theorem variant_fields:
  "(MODEL_CONFIG e (resolveModelKey e (requestBody reqBody)) = Some config
      \<and> present (version config)
      \<and> trimmedPrompt (requestBody reqBody) \<noteq> []
    \<longrightarrow> (if resolveModelKey e (requestBody reqBody) = ''seedream''
            \<and> (\<not> printable (getField (requestBody reqBody) ''max_images'')
                \<or> (normalizeSize (getField (requestBody reqBody) ''size'') = ''custom''
                    \<and> (\<not> printable (getField (requestBody reqBody) ''width'')
                        \<or> \<not> printable (getField (requestBody reqBody) ''height''))))
         then normalizeRequest e reqBody
              = Inl (Response 500
                       (ErrorReply ''Unexpected server error.''
                          (JStr ''Cannot convert object to primitive value'')))
         else (\<exists>v input.
           normalizeRequest e reqBody = Inr (JObj [(''version'', JStr v), (''input'', input)])
           \<and> version config = Some v
           \<and> getField input ''prompt'' = JStr (trimmedPrompt (requestBody reqBody))
           \<and> (if resolveModelKey e (requestBody reqBody) = ''seedream''
               then set (keysOf input) \<subseteq> seedreamFields
               else resolveModelKey e (requestBody reqBody) = ''nano-banana''
                    \<and> set (keysOf input) \<subseteq> nanoBananaFields))))
   \<and> (printable (JObj fs) \<longleftrightarrow> ''toString'' \<notin> fst ` set fs)
   \<and> (printable (JArr xs) \<longleftrightarrow> (\<forall>x\<in>set xs. printable x))
   \<and> printable (JStr s) \<and> printable (JNum printed) \<and> printable (JBool b)
   \<and> printable JNull \<and> printable JUndefined
   \<and> (REPLICATE_NANO_BANANA_VERSION e = Some v' \<and> v' \<noteq> []
    \<longrightarrow> normalizeRequest e catRequest =
          Inr (JObj [(''version'', JStr v'),
                     (''input'', JObj [(''prompt'', JStr ''a cat''),
                                       (''aspect_ratio'', JStr ''16:9''),
                                       (''output_format'', JStr ''jpg'')])]))
   \<and> nanoBananaFields \<inter> {''size'', ''sequential_image_generation'', ''max_images'',
                            ''width'', ''height''} = {}"
proof -
  let ?body = "requestBody reqBody"
  let ?key = "resolveModelKey e ?body"
  let ?prompt = "trimmedPrompt ?body"
  let ?throws = "\<not> printable (getField ?body ''max_images'')
      \<or> (normalizeSize (getField ?body ''size'') = ''custom''
          \<and> (\<not> printable (getField ?body ''width'') \<or> \<not> printable (getField ?body ''height'')))"
  have first: "if ?key = ''seedream'' \<and> ?throws
         then normalizeRequest e reqBody
              = Inl (Response 500
                       (ErrorReply ''Unexpected server error.''
                          (JStr ''Cannot convert object to primitive value'')))
         else (\<exists>v input.
           normalizeRequest e reqBody = Inr (JObj [(''version'', JStr v), (''input'', input)])
           \<and> version config = Some v
           \<and> getField input ''prompt'' = JStr ?prompt
           \<and> (if ?key = ''seedream''
               then set (keysOf input) \<subseteq> seedreamFields
               else ?key = ''nano-banana'' \<and> set (keysOf input) \<subseteq> nanoBananaFields))"
    if a: "MODEL_CONFIG e ?key = Some config \<and> present (version config) \<and> ?prompt \<noteq> []"
  proof -
    from a obtain v where v: "version config = Some v" "v \<noteq> []"
      by (auto simp: present_Some)
    from a have key: "?key = ''seedream'' \<or> ?key = ''nano-banana''"
      by (auto dest: configured_key)
    have run: "normalizeRequest e reqBody =
           (case inputPayload ?key ?prompt ?body of
              Inl err \<Rightarrow> Inl (caught err)
            | Inr input \<Rightarrow> Inr (JObj [(''version'', JStr v), (''input'', input)]))"
      using a v by (simp add: normalizeRequest_input)
    show ?thesis
    proof (cases "?key = ''seedream''")
      case True
      show ?thesis
      proof (cases ?throws)
        case True
        then have "seedreamPayload ?prompt ?body = Inl cannotConvert"
          by (rule seedreamPayload_throws)
        with run \<open>?key = ''seedream''\<close> True show ?thesis
          by (simp add: inputPayload_def cannotConvert_def)
      next
        case False
        then obtain input where "seedreamPayload ?prompt ?body = Inr input"
            and "getField input ''prompt'' = JStr ?prompt"
            and "set (keysOf input) \<subseteq> seedreamFields"
          using seedreamPayload_ok [of ?body ?prompt] by blast
        with run \<open>?key = ''seedream''\<close> False v show ?thesis
          by (simp add: inputPayload_def)
      qed
    next
      case False
      with key have nano: "?key = ''nano-banana''"
        by simp
      with run False v show ?thesis
        using keys_nanoBananaPayload [of ?prompt ?body]
          prompt_nanoBananaPayload [of ?prompt ?body]
        by (simp add: inputPayload_def)
    qed
  qed
  have example: "normalizeRequest e catRequest =
          Inr (JObj [(''version'', JStr v'),
                     (''input'', JObj [(''prompt'', JStr ''a cat''),
                                       (''aspect_ratio'', JStr ''16:9''),
                                       (''output_format'', JStr ''jpg'')])])"
    if "REPLICATE_NANO_BANANA_VERSION e = Some v' \<and> v' \<noteq> []"
    using that by (simp add: normalizeRequest_cat)
  have apart: "nanoBananaFields \<inter> {''size'', ''sequential_image_generation'', ''max_images'',
                            ''width'', ''height''} = {}"
    by (simp add: nanoBananaFields_def)
  from first example apart printable_cases [of fs xs s printed b] show ?thesis
    by blast
qed

theorem variant_fields_witness:
  "normalizeRequest exampleEnvironment catRequest =
     Inr (JObj [(''version'', JStr ''nano-banana-v1''),
                (''input'', JObj [(''prompt'', JStr ''a cat''),
                                  (''aspect_ratio'', JStr ''16:9''),
                                  (''output_format'', JStr ''jpg'')])])
   \<and> set (keysOf (JObj [(''prompt'', JStr ''a cat''), (''size'', JStr ''custom''),
                        (''aspect_ratio'', JStr ''match_input_image''),
                        (''sequential_image_generation'', JStr ''disabled''),
                        (''max_images'', JNum ''1''), (''height'', JNum ''2000'')]))
       \<subseteq> seedreamFields
   \<and> normalizeRequest exampleEnvironment unprintableRequest
       = Inl (Response 500 (ErrorReply ''Unexpected server error.''
                              (JStr ''Cannot convert object to primitive value'')))"
proof -
  let ?config = "ModelEntry (Some ''REPLICATE_SEEDREAM_VERSION'') (Some ''seedream-v4'')"
  let ?input = "JObj [(''prompt'', JStr ''a cat''), (''size'', JStr ''custom''),
                        (''aspect_ratio'', JStr ''match_input_image''),
                        (''sequential_image_generation'', JStr ''disabled''),
                        (''max_images'', JNum ''1''), (''height'', JNum ''2000'')]"
  have pre: "MODEL_CONFIG exampleEnvironment
        (resolveModelKey exampleEnvironment (requestBody customRequest)) = Some ?config
      \<and> present (version ?config) \<and> trimmedPrompt (requestBody customRequest) \<noteq> []"
    by code_simp
  have key: "resolveModelKey exampleEnvironment (requestBody customRequest) = ''seedream''"
    by code_simp
  have fine: "printable (getField (requestBody customRequest) ''max_images'')
      \<and> printable (getField (requestBody customRequest) ''width'')
      \<and> printable (getField (requestBody customRequest) ''height'')"
    by code_simp
  have run: "normalizeRequest exampleEnvironment customRequest
      = Inr (JObj [(''version'', JStr ''seedream-v4''), (''input'', ?input)])"
    by code_simp
  have pre2: "MODEL_CONFIG exampleEnvironment
        (resolveModelKey exampleEnvironment (requestBody unprintableRequest)) = Some ?config
      \<and> present (version ?config) \<and> trimmedPrompt (requestBody unprintableRequest) \<noteq> []"
    by code_simp
  have key2: "resolveModelKey exampleEnvironment (requestBody unprintableRequest) = ''seedream''"
    by code_simp
  have bad: "\<not> printable (getField (requestBody unprintableRequest) ''max_images'')"
    by code_simp
  have nano: "REPLICATE_NANO_BANANA_VERSION exampleEnvironment = Some ''nano-banana-v1''
      \<and> ''nano-banana-v1'' \<noteq> []"
    by (simp add: exampleEnvironment_def)
  note t = variant_fields [where e = exampleEnvironment and reqBody = customRequest
      and config = ?config and v' = "''nano-banana-v1''"]
  from t pre key fine run have "set (keysOf ?input) \<subseteq> seedreamFields"
    by auto
  moreover from t nano have "normalizeRequest exampleEnvironment catRequest =
     Inr (JObj [(''version'', JStr ''nano-banana-v1''),
                (''input'', JObj [(''prompt'', JStr ''a cat''),
                                  (''aspect_ratio'', JStr ''16:9''),
                                  (''output_format'', JStr ''jpg'')])])"
    by blast
  moreover from variant_fields [where e = exampleEnvironment and reqBody = unprintableRequest
      and config = ?config] pre2 key2 bad
  have "normalizeRequest exampleEnvironment unprintableRequest
       = Inl (Response 500 (ErrorReply ''Unexpected server error.''
                              (JStr ''Cannot convert object to primitive value'')))"
    by simp
  ultimately show ?thesis
    by blast
qed











text \<open>
  Claim C4, amended. When the API token is configured and the model key of the request
  resolves to a model with a configured version, a request whose prompt is not a string,
  or is empty once trimmed, is answered with status 400 and the error
  \<open>Field "prompt" is required.\<close>, and no request is sent to the provider, whatever the
  provider would have answered. (The checks of the token, of the model key and of the
  model's version come first, so without the first two conditions another response is
  sent: see the counterexample.)
\<close>

theorem missing_prompt:
  \<open>present (REPLICATE_API_TOKEN e)
    \<and> MODEL_CONFIG e (resolveModelKey e (requestBody reqBody)) = Some config
    \<and> present (version config)
    \<and> (\<not> isString (getField (requestBody reqBody) ''prompt'')
        \<or> trim (stringOf (getField (requestBody reqBody) ''prompt'')) = [])
   \<longrightarrow> predictionsHandler e reqBody createResponse rounds
        = (Some (Response 400 (ErrorReply ''Field "prompt" is required.'' JUndefined)), [])\<close>
proof
  assume a: "present (REPLICATE_API_TOKEN e)
    \<and> MODEL_CONFIG e (resolveModelKey e (requestBody reqBody)) = Some config
    \<and> present (version config)
    \<and> (\<not> isString (getField (requestBody reqBody) ''prompt'')
        \<or> trim (stringOf (getField (requestBody reqBody) ''prompt'')) = [])"
  have "trim [] = []"
    by (simp add: trim_def)
  with a have "trimmedPrompt (requestBody reqBody) = []"
    by (auto simp: trimmedPrompt_def)
  with a have \<open>normalizeRequest e reqBody
      = Inl (Response 400 (ErrorReply ''Field "prompt" is required.'' JUndefined))\<close>
    by (simp add: normalizeRequest_def Let_def)
  with a show \<open>predictionsHandler e reqBody createResponse rounds
        = (Some (Response 400 (ErrorReply ''Field "prompt" is required.'' JUndefined)), [])\<close>
    by (simp add: predictionsHandler_def)
qed

theorem missing_prompt_witness:
  \<open>trim ''   '' = []
   \<and> predictionsHandler exampleEnvironment blankPromptRequest
        (Fetched True 201 (job ''succeeded'' JNull)) []
      = (Some (Response 400 (ErrorReply ''Field "prompt" is required.'' JUndefined)), [])\<close>
proof -
  let ?config = "ModelEntry (Some ''REPLICATE_NANO_BANANA_VERSION'') (Some ''nano-banana-v1'')"
  have pre: "present (REPLICATE_API_TOKEN exampleEnvironment)
    \<and> MODEL_CONFIG exampleEnvironment
        (resolveModelKey exampleEnvironment (requestBody blankPromptRequest)) = Some ?config
    \<and> present (version ?config)
    \<and> trim (stringOf (getField (requestBody blankPromptRequest) ''prompt'')) = []"
    by code_simp
  have blank: "trim ''   '' = []"
    by code_simp
  from missing_prompt [where e = exampleEnvironment and reqBody = blankPromptRequest
      and config = ?config and createResponse = "Fetched True 201 (job ''succeeded'' JNull)"
      and rounds = "[]"] pre blank
  show ?thesis
    by blast
qed

text \<open>
  Claim C4 as stated fails: a request with the blank prompt \<open>"   "\<close> and the model key
  \<open>foo\<close> is rejected for its model key, not for its prompt.
\<close>

theorem missing_prompt_counterexample:
  \<open>trim ''   '' = []
   \<and> predictionsHandler exampleEnvironment unknownModelRequest
        (Fetched True 201 (job ''succeeded'' JNull)) []
      = (Some (Response 400 (ErrorReply ''Unsupported model key "foo".'' JUndefined)), [])\<close>
  by code_simp

subsection \<open>The size of a seedream image\<close>

lemma trim_2K: "trim ''2K'' = ''2K''"
  by code_simp

lemma lower_2K: "toLowerCase ''2K'' \<noteq> ''custom''"
  by code_simp

lemma upper_2K: "toUpperCase ''2K'' = ''2K''"
  by code_simp

text \<open>
  Claim C7, amended. A string size is first trimmed of surrounding white space and then
  only its case is adjusted: the trimmed value gives \<open>custom\<close> when its lower-casing is
  \<open>custom\<close>, its upper-casing when that is one of \<open>1K\<close>, \<open>2K\<close>, \<open>4K\<close>, and \<open>2K\<close>
  otherwise. A size that is not a string gives \<open>2K\<close>. The result is always one of the
  four accepted values.
\<close>

theorem size_normalised:
  "(isString rawValue
      \<longrightarrow> normalizeSize rawValue = spec_normalizeSize (JStr (trim (stringOf rawValue))))
   \<and> (\<not> isString rawValue \<longrightarrow> normalizeSize rawValue = ''2K'')
   \<and> normalizeSize rawValue \<in> {''1K'', ''2K'', ''4K'', ''custom''}
   \<and> (normalizeSize rawValue = ''custom''
        \<longleftrightarrow> isString rawValue \<and> toLowerCase (trim (stringOf rawValue)) = ''custom'')"
proof (intro conjI impI)
  assume "isString rawValue"
  then show "normalizeSize rawValue = spec_normalizeSize (JStr (trim (stringOf rawValue)))"
    by (simp add: normalizeSize_def spec_normalizeSize_def Let_def)
next
  assume "\<not> isString rawValue"
  then show "normalizeSize rawValue = ''2K''"
    by (simp add: normalizeSize_def Let_def trim_2K lower_2K upper_2K)
next
  show "normalizeSize rawValue \<in> {''1K'', ''2K'', ''4K'', ''custom''}"
    by (auto simp: normalizeSize_def Let_def)
next
  show "normalizeSize rawValue = ''custom''
        \<longleftrightarrow> isString rawValue \<and> toLowerCase (trim (stringOf rawValue)) = ''custom''"
    by (auto simp: normalizeSize_def Let_def trim_2K lower_2K)
qed

theorem size_normalised_witness:
  "normalizeSize (JStr '' 4k '') = ''4K''
   \<and> normalizeSize (JStr ''CusTom'') = ''custom''
   \<and> normalizeSize (JStr '''') = ''2K''
   \<and> normalizeSize (JNum ''4'') = ''2K''"
proof -
  have a: "spec_normalizeSize (JStr (trim '' 4k '')) = ''4K''"
      "spec_normalizeSize (JStr (trim ''CusTom'')) = ''custom''"
      "spec_normalizeSize (JStr (trim '''')) = ''2K''"
    by code_simp+
  from size_normalised [of "JStr '' 4k ''"] size_normalised [of "JStr ''CusTom''"]
    size_normalised [of "JStr ''''"] size_normalised [of "JNum ''4''"] a
  show ?thesis
    by simp
qed

text \<open>
  Claim C7 as stated fails: for the size \<open>" 4k "\<close> neither case adjustment of the value
  itself gives an accepted size, so adjusting case only would default to \<open>2K\<close>; the
  code trims the value and answers \<open>4K\<close>.
\<close>

theorem size_normalised_counterexample:
  "normalizeSize (JStr '' 4k '') = ''4K''
   \<and> spec_normalizeSize (JStr '' 4k '') = ''2K''
   \<and> toLowerCase '' 4k '' \<noteq> ''custom''
   \<and> toUpperCase '' 4k '' \<notin> {''1K'', ''2K'', ''4K''}"
  by code_simp

subsection \<open>Image candidates\<close>

lemma filter_alphanumeric:
  "filter alphanumeric xs = filter (\<lambda>c. c \<in> set spec_alphanumerics) xs"
  using alphanumeric_chars by (intro filter_cong) auto

lemma filter_spaces:
  "filter (\<lambda>c. \<not> isWhiteSpace c) xs = filter (\<lambda>c. c \<notin> set spec_whiteSpace) xs"
  using isWhiteSpace_chars by (intro filter_cong) auto

lemma base64Pattern_listed:
  "base64Pattern t \<longleftrightarrow>
     t \<noteq> [] \<and> set t \<subseteq> set (spec_alphanumerics @ ''+/='' @ spec_whiteSpace)"
  using base64Char_chars by (auto simp: base64Pattern_def list_all_iff)

lemma jpeg_kept: "filter alphanumeric ''jpeg'' = ''jpeg''"
  by code_simp

lemma imageFormat_own:
  assumes "map_of (modelStates pg) (case modelKey of None \<Rightarrow> activeModelKey pg | Some k \<Rightarrow> k)
             = Some st"
  shows "imageFormat pg modelKey
           = spec_subtype (if downloadExtension st \<noteq> [] then downloadExtension st
                           else defaultDownloadExtension st)"
  using assms
  by (simp add: imageFormat_def lookupState_def Let_def spec_subtype_def jpeg_kept
        filter_alphanumeric [symmetric] del: filter.simps)

lemma imageFormat_inherited:
  assumes "map_of (modelStates pg) (case modelKey of None \<Rightarrow> activeModelKey pg | Some k \<Rightarrow> k)
             = None"
    and "(case modelKey of None \<Rightarrow> activeModelKey pg | Some k \<Rightarrow> k) \<in> set inheritedNames"
  shows "imageFormat pg modelKey = spec_subtype ''jpeg''"
  using assms
  by (simp add: imageFormat_def lookupState_def Let_def spec_subtype_def jpeg_kept
        filter_alphanumeric [symmetric] del: filter.simps)

lemma imageFormat_active:
  assumes "map_of (modelStates pg) (case modelKey of None \<Rightarrow> activeModelKey pg | Some k \<Rightarrow> k)
             = None"
    and "(case modelKey of None \<Rightarrow> activeModelKey pg | Some k \<Rightarrow> k) \<notin> set inheritedNames"
    and "map_of (modelStates pg) (activeModelKey pg) = Some st"
  shows "imageFormat pg modelKey
           = spec_subtype (if downloadExtension st \<noteq> [] then downloadExtension st
                           else defaultDownloadExtension st)"
  using assms
  by (simp add: imageFormat_def lookupState_def Let_def spec_subtype_def jpeg_kept
        filter_alphanumeric [symmetric] del: filter.simps)

lemma normalizeImageValue_spec:
  assumes "imageFormat pg modelKey = spec_subtype expected"
  shows "normalizeImageValue pg (JStr s) modelKey = spec_normalizeImageValue expected (spec_trimmed s)"
  using assms
  by (simp add: normalizeImageValue_def spec_normalizeImageValue_def Let_def
        base64Pattern_listed filter_spaces trim_spec del: filter.simps)


text \<open>
  Claim C8, amended. A string candidate is trimmed first, and the specification's rule
  applies to the trimmed string: with no \<open>http://\<close>, \<open>https://\<close> or \<open>data:\<close> prefix, a
  trimmed candidate made of base64 characters and white space and longer than 100
  becomes \<open>data:image/<subtype>;base64,\<close> followed by the trimmed candidate without its
  white space, and any other is rejected. The subtype is the expected format reduced to
  its letters and digits, or \<open>jpeg\<close> when none is left; the expected format is the
  download extension of the model's state (of the active model's state when the key
  names none), or its default extension when that is empty, and \<open>jpeg\<close> when the key is
  a name every object inherits or no state is found. For the expected format \<open>png\<close> the
  result is \<open>data:image/png;base64,\<close> and the payload. A candidate that is not a string
  is rejected.
\<close>

theorem base64_wrapping:
  "(map_of (modelStates pg) (case modelKey of None \<Rightarrow> activeModelKey pg | Some k \<Rightarrow> k)
      = Some st
    \<longrightarrow> normalizeImageValue pg (JStr s) modelKey
          = spec_normalizeImageValue
              (if downloadExtension st \<noteq> [] then downloadExtension st
               else defaultDownloadExtension st)
              (spec_trimmed s))
   \<and> (map_of (modelStates pg) (case modelKey of None \<Rightarrow> activeModelKey pg | Some k \<Rightarrow> k)
        = None
      \<longrightarrow> normalizeImageValue pg (JStr s) modelKey
            = spec_normalizeImageValue
                (if (case modelKey of None \<Rightarrow> activeModelKey pg | Some k \<Rightarrow> k)
                      \<in> set inheritedNames
                 then ''jpeg''
                 else (case map_of (modelStates pg) (activeModelKey pg) of
                         None \<Rightarrow> ''jpeg''
                       | Some active \<Rightarrow>
                           if downloadExtension active \<noteq> [] then downloadExtension active
                           else defaultDownloadExtension active))
                (spec_trimmed s))
   \<and> (map_of (modelStates pg) (case modelKey of None \<Rightarrow> activeModelKey pg | Some k \<Rightarrow> k)
        = Some st
      \<and> downloadExtension st = ''png''
      \<and> \<not> prefix ''http://'' (spec_trimmed s) \<and> \<not> prefix ''https://'' (spec_trimmed s)
      \<and> \<not> prefix ''data:'' (spec_trimmed s)
      \<and> set (spec_trimmed s) \<subseteq> set (spec_alphanumerics @ ''+/='' @ spec_whiteSpace)
      \<and> length (spec_trimmed s) > 100
      \<longrightarrow> normalizeImageValue pg (JStr s) modelKey
            = Some (''data:image/png;base64,''
                    @ filter (\<lambda>c. c \<notin> set spec_whiteSpace) (spec_trimmed s)))
   \<and> (\<not> isString v \<longrightarrow> normalizeImageValue pg v modelKey = None)"
proof -
  let ?key = "case modelKey of None \<Rightarrow> activeModelKey pg | Some k \<Rightarrow> k"
  have own: "normalizeImageValue pg (JStr s) modelKey
          = spec_normalizeImageValue
              (if downloadExtension st \<noteq> [] then downloadExtension st
               else defaultDownloadExtension st)
              (spec_trimmed s)"
    if "map_of (modelStates pg) ?key = Some st"
    using that by (intro normalizeImageValue_spec imageFormat_own)
  have other: "normalizeImageValue pg (JStr s) modelKey
            = spec_normalizeImageValue
                (if ?key \<in> set inheritedNames
                 then ''jpeg''
                 else (case map_of (modelStates pg) (activeModelKey pg) of
                         None \<Rightarrow> ''jpeg''
                       | Some active \<Rightarrow>
                           if downloadExtension active \<noteq> [] then downloadExtension active
                           else defaultDownloadExtension active))
                (spec_trimmed s)"
    if none: "map_of (modelStates pg) ?key = None"
  proof (cases "?key \<in> set inheritedNames")
    case True
    with none show ?thesis
      by (simp add: normalizeImageValue_spec imageFormat_inherited)
  next
    case False
    show ?thesis
    proof (cases "map_of (modelStates pg) (activeModelKey pg)")
      case None
      with none False have "imageFormat pg modelKey = spec_subtype ''jpeg''"
        by (simp add: imageFormat_def lookupState_def Let_def spec_subtype_def jpeg_kept
              filter_alphanumeric [symmetric] del: filter.simps)
      with None False show ?thesis
        by (simp add: normalizeImageValue_spec)
    next
      case (Some active)
      with none False show ?thesis
        by (simp add: normalizeImageValue_spec imageFormat_active)
    qed
  qed
  have png: "spec_subtype ''png'' = ''png''"
    by code_simp
  have wrapped: "normalizeImageValue pg (JStr s) modelKey
            = Some (''data:image/png;base64,''
                    @ filter (\<lambda>c. c \<notin> set spec_whiteSpace) (spec_trimmed s))"
    if "map_of (modelStates pg) ?key = Some st \<and> downloadExtension st = ''png''
      \<and> \<not> prefix ''http://'' (spec_trimmed s) \<and> \<not> prefix ''https://'' (spec_trimmed s)
      \<and> \<not> prefix ''data:'' (spec_trimmed s)
      \<and> set (spec_trimmed s) \<subseteq> set (spec_alphanumerics @ ''+/='' @ spec_whiteSpace)
      \<and> length (spec_trimmed s) > 100"
  proof -
    from that have "spec_trimmed s \<noteq> []"
      by auto
    with that own png show ?thesis
      by (simp add: spec_normalizeImageValue_def del: filter.simps)
  qed
  have "normalizeImageValue pg v modelKey = None" if "\<not> isString v"
    using that by (simp add: normalizeImageValue_def)
  with own other wrapped show ?thesis
    by blast
qed

theorem base64_wrapping_witness:
  "normalizeImageValue initialPage (JStr wrappedExample) (Some ''seedream'')
     = Some (''data:image/png;base64,'' @ replicate 101 (CHR ''A'') @ ''QUJD'')
   \<and> normalizeImageValue initialPage (JStr wrappedExample) (Some ''nano-banana'')
     = Some (''data:image/jpg;base64,'' @ replicate 101 (CHR ''A'') @ ''QUJD'')
   \<and> normalizeImageValue initialPage (JStr wrappedExample) (Some ''constructor'')
     = Some (''data:image/jpeg;base64,'' @ replicate 101 (CHR ''A'') @ ''QUJD'')
   \<and> normalizeImageValue initialPage (JStr ''QUJD'') (Some ''seedream'') = None"
proof -
  let ?png = "\<lparr> downloadExtension = ''png'', defaultDownloadExtension = ''png'' \<rparr>"
  let ?jpg = "\<lparr> downloadExtension = ''jpg'', defaultDownloadExtension = ''jpg'' \<rparr>"
  have st: "map_of (modelStates initialPage) ''seedream'' = Some ?png"
      "map_of (modelStates initialPage) ''nano-banana'' = Some ?jpg"
      "map_of (modelStates initialPage) ''constructor'' = None"
    by (simp_all add: initialPage_def)
  have inh: "''constructor'' \<in> set inheritedNames"
    by (simp add: inheritedNames_def)
  have pre: "\<not> prefix ''http://'' (spec_trimmed wrappedExample)
      \<and> \<not> prefix ''https://'' (spec_trimmed wrappedExample)
      \<and> \<not> prefix ''data:'' (spec_trimmed wrappedExample)
      \<and> set (spec_trimmed wrappedExample) \<subseteq> set (spec_alphanumerics @ ''+/='' @ spec_whiteSpace)
      \<and> length (spec_trimmed wrappedExample) > 100"
    by code_simp
  have stripped: "filter (\<lambda>c. c \<notin> set spec_whiteSpace) (spec_trimmed wrappedExample)
      = replicate 101 (CHR ''A'') @ ''QUJD''"
    by code_simp
  have jpg: "spec_normalizeImageValue ''jpg'' (spec_trimmed wrappedExample)
      = Some (''data:image/jpg;base64,'' @ replicate 101 (CHR ''A'') @ ''QUJD'')"
    by code_simp
  have jpeg: "spec_normalizeImageValue ''jpeg'' (spec_trimmed wrappedExample)
      = Some (''data:image/jpeg;base64,'' @ replicate 101 (CHR ''A'') @ ''QUJD'')"
    by code_simp
  have short: "spec_normalizeImageValue ''png'' (spec_trimmed ''QUJD'') = None"
    by code_simp
  have own: "map_of (modelStates initialPage)
        (case Some ''seedream'' of None \<Rightarrow> activeModelKey initialPage | Some k \<Rightarrow> k) = Some ?png
      \<and> downloadExtension ?png = ''png''"
      "map_of (modelStates initialPage)
        (case Some ''nano-banana'' of None \<Rightarrow> activeModelKey initialPage | Some k \<Rightarrow> k)
        = Some ?jpg"
      "map_of (modelStates initialPage)
        (case Some ''constructor'' of None \<Rightarrow> activeModelKey initialPage | Some k \<Rightarrow> k)
        = None"
    using st by simp_all
  note t = base64_wrapping [where pg = initialPage]
  from t [where s = wrappedExample and modelKey = "Some ''seedream''" and st = ?png]
    own(1) pre
  have "normalizeImageValue initialPage (JStr wrappedExample) (Some ''seedream'')
      = Some (''data:image/png;base64,''
              @ filter (\<lambda>c. c \<notin> set spec_whiteSpace) (spec_trimmed wrappedExample))"
    by blast
  then have a: "normalizeImageValue initialPage (JStr wrappedExample) (Some ''seedream'')
     = Some (''data:image/png;base64,'' @ replicate 101 (CHR ''A'') @ ''QUJD'')"
    unfolding stripped .
  from t [where s = wrappedExample and modelKey = "Some ''nano-banana''" and st = ?jpg] own(2)
  have "normalizeImageValue initialPage (JStr wrappedExample) (Some ''nano-banana'')
      = spec_normalizeImageValue
          (if downloadExtension ?jpg \<noteq> [] then downloadExtension ?jpg
           else defaultDownloadExtension ?jpg)
          (spec_trimmed wrappedExample)"
    by blast
  then have "normalizeImageValue initialPage (JStr wrappedExample) (Some ''nano-banana'')
      = spec_normalizeImageValue ''jpg'' (spec_trimmed wrappedExample)"
    by simp
  then have b: "normalizeImageValue initialPage (JStr wrappedExample) (Some ''nano-banana'')
     = Some (''data:image/jpg;base64,'' @ replicate 101 (CHR ''A'') @ ''QUJD'')"
    unfolding jpg .
  from t [where s = wrappedExample and modelKey = "Some ''constructor''"] own(3)
  have "normalizeImageValue initialPage (JStr wrappedExample) (Some ''constructor'')
      = spec_normalizeImageValue
          (if (case Some ''constructor'' of None \<Rightarrow> activeModelKey initialPage | Some k \<Rightarrow> k)
                \<in> set inheritedNames
           then ''jpeg''
           else (case map_of (modelStates initialPage) (activeModelKey initialPage) of
                   None \<Rightarrow> ''jpeg''
                 | Some active \<Rightarrow>
                     if downloadExtension active \<noteq> [] then downloadExtension active
                     else defaultDownloadExtension active))
          (spec_trimmed wrappedExample)"
    by blast
  then have "normalizeImageValue initialPage (JStr wrappedExample) (Some ''constructor'')
      = spec_normalizeImageValue ''jpeg'' (spec_trimmed wrappedExample)"
    using inh by simp
  then have c: "normalizeImageValue initialPage (JStr wrappedExample) (Some ''constructor'')
     = Some (''data:image/jpeg;base64,'' @ replicate 101 (CHR ''A'') @ ''QUJD'')"
    unfolding jpeg .
  from t [where s = "''QUJD''" and modelKey = "Some ''seedream''" and st = ?png] own(1)
  have "normalizeImageValue initialPage (JStr ''QUJD'') (Some ''seedream'')
      = spec_normalizeImageValue
          (if downloadExtension ?png \<noteq> [] then downloadExtension ?png
           else defaultDownloadExtension ?png)
          (spec_trimmed ''QUJD'')"
    by blast
  then have "normalizeImageValue initialPage (JStr ''QUJD'') (Some ''seedream'')
      = spec_normalizeImageValue ''png'' (spec_trimmed ''QUJD'')"
    by simp
  then have d: "normalizeImageValue initialPage (JStr ''QUJD'') (Some ''seedream'') = None"
    unfolding short .
  from a b c d show ?thesis
    by blast
qed

text \<open>
  Claim C8 as stated fails: a candidate of 100 letters and a trailing space has no scheme
  prefix, is made of base64 characters and white space and has length 101, so the rule on
  the candidate itself wraps it; the code measures the trimmed string, of length 100, and
  rejects it.
\<close>

theorem base64_wrapping_counterexample:
  "length paddedBase64 = 101
   \<and> set paddedBase64 \<subseteq> set (spec_alphanumerics @ ''+/='' @ spec_whiteSpace)
   \<and> \<not> prefix ''http://'' paddedBase64 \<and> \<not> prefix ''https://'' paddedBase64
   \<and> \<not> prefix ''data:'' paddedBase64
   \<and> spec_normalizeImageValue ''png'' paddedBase64
       = Some (''data:image/png;base64,'' @ replicate 100 (CHR ''A''))
   \<and> normalizeImageValue initialPage (JStr paddedBase64) (Some ''seedream'') = None"
  by code_simp

subsection \<open>Finding the image\<close>

lemma probeSources_find:
  "probeSources pg modelKey sources =
     (case find (\<lambda>s. normalizeImageValue pg s modelKey \<noteq> None) sources of
        None \<Rightarrow> None
      | Some s \<Rightarrow> normalizeImageValue pg s modelKey)"
  by (induction sources) (auto split: option.splits)

lemma probeSources_append:
  "probeSources pg modelKey (xs @ ys) =
     (case probeSources pg modelKey xs of
        Some v \<Rightarrow> Some v
      | None \<Rightarrow> probeSources pg modelKey ys)"
  by (induction xs) (auto split: option.splits)

lemma scanItems_sources:
  "scanItems pg modelKey items = probeSources pg modelKey (concat (map itemSources items))"
proof (induction items)
  case Nil
  show ?case by simp
next
  case (Cons item items)
  show ?case
  proof (cases "isString item")
    case True
    then have "\<not> typeofObject item"
      by (cases item) simp_all
    with True Cons.IH show ?thesis
      by (simp add: itemSources_def split: option.splits)
  next
    case False
    with Cons.IH show ?thesis
      by (simp add: itemSources_def probeSources_append split: option.splits)
  qed
qed

lemma normalize_undefined: "normalizeImageValue pg JUndefined modelKey = None"
  by (simp add: normalizeImageValue_def)

lemma probe_array_fields: "probeSources pg modelKey (imageSources (JArr items)) = None"
  by (simp add: imageSources_def normalize_undefined)

lemma fromOutput_array:
  "fromOutput pg modelKey (JArr items)
     = probeSources pg modelKey (concat (map itemSources items))"
  by (simp add: fromOutput_def scanItems_sources probe_array_fields split: option.splits)

lemma fromOutput_object:
  "fromOutput pg modelKey (JObj props) = probeSources pg modelKey (imageSources (JObj props))"
  by (simp add: fromOutput_def)

lemma outputOf_present:
  "\<not> nullish (getField prediction ''output'') \<Longrightarrow>
   outputOf prediction = getField prediction ''output''"
  by (simp add: outputOf_def coalesce_def)

lemma outputOf_images:
  "nullish (getField prediction ''output'') \<Longrightarrow>
   outputOf prediction = coalesce (getField prediction ''images'') JNull"
  by (simp add: outputOf_def coalesce_def)

text \<open>
  Claim C5, amended. For a job whose output is a list, the candidates are, in source
  order, each string element and, for each object element, each of its fields \<open>image\<close>,
  \<open>url\<close>, \<open>uri\<close>, \<open>path\<close> in that order (every field, not only the first that is a
  string). \<open>extractImageUrl\<close> returns the normalization of the first candidate that
  normalizes, and \<open>null\<close> when none does.
\<close>

theorem list_output_candidates:
  "(truthy prediction \<and> getField prediction ''output'' = JArr items
    \<longrightarrow> extractImageUrl pg prediction modelKey
          = probeSources pg modelKey (concat (map itemSources items)))
   \<and> probeSources pg modelKey sources
       = (case find (\<lambda>s. normalizeImageValue pg s modelKey \<noteq> None) sources of
            None \<Rightarrow> None
          | Some s \<Rightarrow> normalizeImageValue pg s modelKey)"
proof (intro conjI impI)
  assume a: "truthy prediction \<and> getField prediction ''output'' = JArr items"
  then have "outputOf prediction = JArr items"
    by (simp add: outputOf_present)
  with a show "extractImageUrl pg prediction modelKey
          = probeSources pg modelKey (concat (map itemSources items))"
    by (simp add: extractImageUrl_def fromOutput_array)
next
  show "probeSources pg modelKey sources
       = (case find (\<lambda>s. normalizeImageValue pg s modelKey \<noteq> None) sources of
            None \<Rightarrow> None
          | Some s \<Rightarrow> normalizeImageValue pg s modelKey)"
    by (rule probeSources_find)
qed

theorem list_output_candidates_witness:
  "extractImageUrl initialPage (job ''succeeded'' (JArr [JStr ''soon'', JNum ''3'', twoFieldItem]))
     (Some ''seedream'')
   = Some ''https://example.com/a.png''"
proof -
  let ?items = "[JStr ''soon'', JNum ''3'', twoFieldItem]"
  have pre: "truthy (job ''succeeded'' (JArr ?items))
      \<and> getField (job ''succeeded'' (JArr ?items)) ''output'' = JArr ?items"
    by (simp add: job_def)
  have probe: "probeSources initialPage (Some ''seedream'') (concat (map itemSources ?items))
      = Some ''https://example.com/a.png''"
    by code_simp
  from list_output_candidates [where prediction = "job ''succeeded'' (JArr ?items)"
      and items = ?items and pg = initialPage and modelKey = "Some ''seedream''"] pre probe
  show ?thesis
    by simp
qed

text \<open>
  Claim C5 as stated fails: in the element \<open>{image: "pending", url: "https://..."}\<close> the
  first field that is a string is \<open>image\<close>, which does not normalize, so with one
  candidate per element the result is \<open>null\<close>; the code goes on to \<open>url\<close> and returns it.
\<close>

theorem list_output_candidates_counterexample:
  "spec_itemCandidate twoFieldItem = Some (JStr ''pending'')
   \<and> normalizeImageValue initialPage (JStr ''pending'') (Some ''seedream'') = None
   \<and> spec_extractImageList initialPage (Some ''seedream'') [twoFieldItem] = None
   \<and> extractImageUrl initialPage (job ''succeeded'' (JArr [twoFieldItem])) (Some ''seedream'')
       = Some ''https://example.com/a.png''"
  by code_simp

text \<open>
  Claim C10. For a job whose \<open>output\<close> is \<open>null\<close> or absent, \<open>extractImageUrl\<close> gives
  what it gives for a job whose \<open>output\<close> is the first job's \<open>images\<close> field. When the
  source so resolved is an object that is not an array, the result is that of probing its
  fields \<open>image\<close>, \<open>url\<close>, \<open>uri\<close>, \<open>path\<close> in this order: the normalization of the first
  one that normalizes, and \<open>null\<close> only when none does.
\<close>

theorem images_and_object_output:
  "(truthy prediction \<and> nullish (getField prediction ''output'')
    \<longrightarrow> extractImageUrl pg prediction modelKey
          = extractImageUrl pg (JObj [(''output'', getField prediction ''images'')]) modelKey)
   \<and> (truthy prediction \<and> outputOf prediction = JObj props
    \<longrightarrow> extractImageUrl pg prediction modelKey
          = probeSources pg modelKey
              [getField (JObj props) ''image'', getField (JObj props) ''url'',
               getField (JObj props) ''uri'', getField (JObj props) ''path''])
   \<and> probeSources pg modelKey sources
       = (case find (\<lambda>s. normalizeImageValue pg s modelKey \<noteq> None) sources of
            None \<Rightarrow> None
          | Some s \<Rightarrow> normalizeImageValue pg s modelKey)"
proof (intro conjI impI)
  assume a: "truthy prediction \<and> nullish (getField prediction ''output'')"
  have "outputOf (JObj [(''output'', getField prediction ''images'')])
      = coalesce (getField prediction ''images'') JNull"
    by (simp add: outputOf_def coalesce_def)
  with a show "extractImageUrl pg prediction modelKey
          = extractImageUrl pg (JObj [(''output'', getField prediction ''images'')]) modelKey"
    by (simp add: extractImageUrl_def outputOf_images)
next
  assume "truthy prediction \<and> outputOf prediction = JObj props"
  then show "extractImageUrl pg prediction modelKey
          = probeSources pg modelKey
              [getField (JObj props) ''image'', getField (JObj props) ''url'',
               getField (JObj props) ''uri'', getField (JObj props) ''path'']"
    by (simp add: extractImageUrl_def fromOutput_object imageSources_def)
next
  show "probeSources pg modelKey sources
       = (case find (\<lambda>s. normalizeImageValue pg s modelKey \<noteq> None) sources of
            None \<Rightarrow> None
          | Some s \<Rightarrow> normalizeImageValue pg s modelKey)"
    by (rule probeSources_find)
qed

theorem images_and_object_output_witness:
  "extractImageUrl initialPage imagesOnlyJob (Some ''nano-banana'')
     = Some ''data:image/png;base64,QUJD''
   \<and> extractImageUrl initialPage
         (JObj [(''output'', JObj [(''image'', JStr ''none''), (''url'', JNull)])]) None
     = None"
proof -
  let ?images = "JObj [(''image'', JNum ''1''), (''uri'', JStr '' data:image/png;base64,QUJD''),
                       (''path'', JStr ''https://example.com/b.png'')]"
  let ?bare = "JObj [(''output'', ?images)]"
  let ?none = "JObj [(''output'', JObj [(''image'', JStr ''none''), (''url'', JNull)])]"
  have pre1: "truthy imagesOnlyJob \<and> nullish (getField imagesOnlyJob ''output'')"
    by (simp add: imagesOnlyJob_def)
  have images: "getField imagesOnlyJob ''images'' = ?images"
    by (simp add: imagesOnlyJob_def)
  have pre2: "truthy ?bare \<and> outputOf ?bare = ?images"
    by (simp add: outputOf_def coalesce_def)
  have pre3: "truthy ?none
      \<and> outputOf ?none = JObj [(''image'', JStr ''none''), (''url'', JNull)]"
    by (simp add: outputOf_def coalesce_def)
  have probe: "probeSources initialPage (Some ''nano-banana'')
        [getField ?images ''image'', getField ?images ''url'', getField ?images ''uri'',
         getField ?images ''path'']
      = Some ''data:image/png;base64,QUJD''"
    by code_simp
  have probe3: "probeSources initialPage None
        [getField (JObj [(''image'', JStr ''none''), (''url'', JNull)]) ''image'',
         getField (JObj [(''image'', JStr ''none''), (''url'', JNull)]) ''url'',
         getField (JObj [(''image'', JStr ''none''), (''url'', JNull)]) ''uri'',
         getField (JObj [(''image'', JStr ''none''), (''url'', JNull)]) ''path'']
      = None"
    by code_simp
  note t = images_and_object_output
  from t [where prediction = imagesOnlyJob and pg = initialPage
      and modelKey = "Some ''nano-banana''"] pre1 images
  have "extractImageUrl initialPage imagesOnlyJob (Some ''nano-banana'')
      = extractImageUrl initialPage ?bare (Some ''nano-banana'')"
    by simp
  also from t [where prediction = ?bare and pg = initialPage
      and modelKey = "Some ''nano-banana''" and props = "[(''image'', JNum ''1''),
        (''uri'', JStr '' data:image/png;base64,QUJD''),
        (''path'', JStr ''https://example.com/b.png'')]"] pre2 probe
  have "\<dots> = Some ''data:image/png;base64,QUJD''"
    by simp
  finally have first: "extractImageUrl initialPage imagesOnlyJob (Some ''nano-banana'')
     = Some ''data:image/png;base64,QUJD''" .
  from t [where prediction = ?none and pg = initialPage and modelKey = None
      and props = "[(''image'', JStr ''none''), (''url'', JNull)]"] pre3 probe3
  have "extractImageUrl initialPage ?none None = None"
    by simp
  with first show ?thesis
    by blast
qed

subsection \<open>Finding the text\<close>

lemma stringField_getField:
  "(if isString (getField (JObj props) k) then cs @ [getField (JObj props) k] else cs)
     = cs @ map JStr (spec_stringField props k)"
  by (simp add: spec_stringField_def split: option.splits json.splits)

lemma pushPiece_texts: "pushPiece cs piece = cs @ map JStr (spec_pieceTexts piece)"
proof (cases piece)
  case (JObj props)
  then show ?thesis
    using stringField_getField [of props "''text''" cs]
    by (simp add: pushPiece_def split: if_splits)
qed (simp_all add: pushPiece_def)

lemma pushPieces_texts:
  "foldl pushPiece cs pieces = cs @ map JStr (concat (map spec_pieceTexts pieces))"
  by (induction pieces arbitrary: cs) (simp_all add: pushPiece_texts)

lemma pushItem_texts: "pushItem cs item = cs @ map JStr (spec_itemTexts item)"
proof (cases item)
  case (JObj props)
  have textField: "(if isString (getField (JObj props) ''text'')
               then cs @ [getField (JObj props) ''text''] else cs)
      = cs @ map JStr (spec_stringField props ''text'')"
    by (rule stringField_getField)
  have message: "(if isString (getField (JObj props) ''message'')
               then ws @ [getField (JObj props) ''message''] else ws)
      = ws @ map JStr (spec_stringField props ''message'')" for ws
    by (rule stringField_getField)
  have content: "(if isArray (getField (JObj props) ''content'')
        then foldl pushPiece ws (itemsOf (getField (JObj props) ''content'')) else ws)
      = ws @ map JStr (case map_of props ''content'' of
                         Some (JArr pieces) \<Rightarrow> concat (map spec_pieceTexts pieces)
                       | _ \<Rightarrow> [])" for ws
    by (simp add: pushPieces_texts split: option.splits json.splits)
  show ?thesis
    unfolding JObj pushItem_def Let_def textField message content
    by simp
qed (simp_all add: pushItem_def)

lemma pushItems_texts:
  "foldl pushItem cs items = cs @ map JStr (concat (map spec_itemTexts items))"
  by (induction items arbitrary: cs) (simp_all add: pushItem_texts)

lemma lines_Nil: "spec_lines [] = [[]]"
  by (simp add: spec_lines.simps [of "[]"])

lemma lines_newline: "spec_lines (CHR 0x0A # xs) = [] # spec_lines xs"
  by (simp add: spec_lines.simps [of "CHR 0x0A # xs"])

lemma lines_other:
  "x \<noteq> CHR 0x0A \<Longrightarrow>
   spec_lines (x # xs) = (case spec_lines xs of [] \<Rightarrow> [[x]] | l # ls \<Rightarrow> (x # l) # ls)"
  by (simp add: spec_lines.simps [of "x # xs"] spec_lines.simps [of xs])

lemma split_lines: "split (CHR 0x0A) s = spec_lines s"
  by (induction s) (simp_all add: lines_Nil lines_newline lines_other)

lemma join_spaces:
  "join [c] ls = (case ls of [] \<Rightarrow> [] | l # others \<Rightarrow> l @ concat (map (\<lambda>x. c # x) others))"
  by (induction "[c]" ls rule: join.induct) simp_all

lemma sliceLast_rev: "sliceLast n ls = rev (take n (rev ls))"
  by (simp add: sliceLast_def take_rev)

lemma lastFiveLines:
  "join '' '' (sliceLast 5 (split (CHR 0x0A) logs)) = spec_lastFiveLines logs"
  unfolding split_lines sliceLast_rev spec_lastFiveLines_def
  by (simp add: join_spaces split: list.splits)

lemma collectCandidates_texts:
  "collectCandidates (JObj props) = map JStr (spec_textCandidates (JObj props))"
proof -
  have out: "(if isArray (getField (JObj props) ''output'')
        then foldl pushItem
               (if isString (getField (JObj props) ''output'')
                then [getField (JObj props) ''output''] else [])
               (itemsOf (getField (JObj props) ''output''))
        else (if isString (getField (JObj props) ''output'')
              then [getField (JObj props) ''output''] else []))
      = map JStr (case map_of props ''output'' of
                    Some (JStr s) \<Rightarrow> [s]
                  | Some (JArr items) \<Rightarrow> concat (map spec_itemTexts items)
                  | _ \<Rightarrow> [])"
    by (simp add: pushItems_texts split: option.splits json.splits)
  have outputText: "(if isString (getField (JObj props) ''output_text'')
               then ws @ [getField (JObj props) ''output_text''] else ws)
      = ws @ map JStr (spec_stringField props ''output_text'')" for ws
    by (rule stringField_getField)
  have logs: "(if isString (getField (JObj props) ''logs'')
        then ws @ [JStr (join '' '' (sliceLast 5
               (split (CHR 0x0A) (stringOf (getField (JObj props) ''logs'')))))]
        else ws)
      = ws @ map JStr (case map_of props ''logs'' of
                         Some (JStr l) \<Rightarrow> [spec_lastFiveLines l]
                       | _ \<Rightarrow> [])" for ws
    by (simp add: lastFiveLines split: option.splits json.splits)
  show ?thesis
    unfolding collectCandidates_def Let_def out outputText logs
    by simp
qed

lemma collectCandidates_other:
  "\<not> typeofObject v \<or> isArray v \<Longrightarrow> collectCandidates v = []"
  by (cases v) (simp_all add: collectCandidates_def)

lemma firstText_find:
  "firstText (map JStr cs)
     = (case find (\<lambda>c. trim c \<noteq> []) cs of None \<Rightarrow> [] | Some c \<Rightarrow> trim c)"
  by (induction cs) (simp_all add: normalizeText_def)

lemma extractTextOutput_spec:
  "extractTextOutput prediction = spec_extractText prediction"
proof (cases prediction)
  case (JObj props)
  then show ?thesis
    by (simp only: extractTextOutput_def collectCandidates_texts firstText_find
          spec_extractText_def trim_spec truthy.simps simp_thms if_False)
qed (simp_all add: extractTextOutput_def collectCandidates_def spec_extractText_def)

lemma refineHandler_run:
  assumes "present (REPLICATE_API_TOKEN e)" and "present (REPLICATE_REFINE_MODEL_VERSION e)"
    and "trimmedPrompt reqBody \<noteq> []"
    and "fst (createAndPollPrediction e
                (case REPLICATE_API_TOKEN e of Some t \<Rightarrow> t | None \<Rightarrow> [])
                (refineBody
                   (case REPLICATE_REFINE_MODEL_VERSION e of Some v \<Rightarrow> v | None \<Rightarrow> [])
                   (trimmedPrompt reqBody))
                c rounds) = Some (Inr (p, el))"
  shows "fst (refineHandler e reqBody c rounds) =
           Some (Response 200
                   (RefineReply (if extractTextOutput p \<noteq> [] then extractTextOutput p
                                 else trimmedPrompt reqBody) el p))"
proof -
  let ?run = "createAndPollPrediction e
                (case REPLICATE_API_TOKEN e of Some t \<Rightarrow> t | None \<Rightarrow> [])
                (refineBody
                   (case REPLICATE_REFINE_MODEL_VERSION e of Some v \<Rightarrow> v | None \<Rightarrow> [])
                   (trimmedPrompt reqBody))
                c rounds"
  obtain out sent where run: "?run = (out, sent)"
    by (cases ?run)
  with assms(4) have "out = Some (Inr (p, el))"
    by simp
  with assms(1-3) run show ?thesis
    by (simp add: refineHandler_def Let_def)
qed

lemma trimmedPrompt_spec:
  "getField reqBody ''prompt'' = JStr prompt \<Longrightarrow> trimmedPrompt reqBody = spec_trimmed prompt"
  by (simp add: trimmedPrompt_def trim_spec)

text \<open>
  Claim C9, amended. \<open>extractTextOutput\<close> returns the first candidate that is not empty
  once the white space at its two ends (TAB, LF, VT, FF, CR, SPACE, NBSP) is taken off, in
  that trimmed form, or the empty string when there is none. The candidates are, in this
  order: a string \<open>output\<close>; for each element of a list \<open>output\<close> the string itself, or,
  for an object, its string \<open>text\<close>, then its string \<open>message\<close>, then the pieces of its
  \<open>content\<close> list that are strings or objects with a string \<open>text\<close>; a string
  \<open>output_text\<close>; the last five lines of a string \<open>logs\<close> joined by single spaces. When
  the job is returned, \<open>/api/refine\<close> answers 200 with that text as \<open>refined_prompt\<close>,
  and with the trimmed prompt when the text is empty.
\<close>

theorem text_extraction:
  "extractTextOutput prediction
     = (case find (\<lambda>c. spec_trimmed c \<noteq> []) (spec_textCandidates prediction) of
          None \<Rightarrow> []
        | Some c \<Rightarrow> spec_trimmed c)
   \<and> (present (REPLICATE_API_TOKEN e) \<and> present (REPLICATE_REFINE_MODEL_VERSION e)
        \<and> getField reqBody ''prompt'' = JStr prompt
        \<and> spec_trimmed prompt \<noteq> []
        \<and> fst (createAndPollPrediction e
                (case REPLICATE_API_TOKEN e of Some t \<Rightarrow> t | None \<Rightarrow> [])
                (refineBody
                   (case REPLICATE_REFINE_MODEL_VERSION e of Some v \<Rightarrow> v | None \<Rightarrow> [])
                   (spec_trimmed prompt))
                c rounds) = Some (Inr (p, el))
      \<longrightarrow> fst (refineHandler e reqBody c rounds)
            = Some (Response 200
                      (RefineReply
                         (case find (\<lambda>c. spec_trimmed c \<noteq> []) (spec_textCandidates p) of
                            None \<Rightarrow> spec_trimmed prompt
                          | Some c \<Rightarrow> spec_trimmed c)
                         el p)))"
proof (intro conjI impI)
  show "extractTextOutput prediction
     = (case find (\<lambda>c. spec_trimmed c \<noteq> []) (spec_textCandidates prediction) of
          None \<Rightarrow> []
        | Some c \<Rightarrow> spec_trimmed c)"
    by (simp add: extractTextOutput_spec spec_extractText_def)
next
  assume hyp: "present (REPLICATE_API_TOKEN e) \<and> present (REPLICATE_REFINE_MODEL_VERSION e)
        \<and> getField reqBody ''prompt'' = JStr prompt
        \<and> spec_trimmed prompt \<noteq> []
        \<and> fst (createAndPollPrediction e
                (case REPLICATE_API_TOKEN e of Some t \<Rightarrow> t | None \<Rightarrow> [])
                (refineBody
                   (case REPLICATE_REFINE_MODEL_VERSION e of Some v \<Rightarrow> v | None \<Rightarrow> [])
                   (spec_trimmed prompt))
                c rounds) = Some (Inr (p, el))"
  then have prompt: "trimmedPrompt reqBody = spec_trimmed prompt"
    by (simp add: trimmedPrompt_spec)
  have found: "(if extractTextOutput p \<noteq> [] then extractTextOutput p else spec_trimmed prompt)
      = (case find (\<lambda>c. spec_trimmed c \<noteq> []) (spec_textCandidates p) of
           None \<Rightarrow> spec_trimmed prompt
         | Some c \<Rightarrow> spec_trimmed c)"
  proof (cases "find (\<lambda>c. spec_trimmed c \<noteq> []) (spec_textCandidates p)")
    case None
    then show ?thesis
      by (simp add: extractTextOutput_spec spec_extractText_def)
  next
    case (Some found)
    then have "spec_trimmed found \<noteq> []"
      by (auto simp: find_Some_iff)
    with Some show ?thesis
      by (simp add: extractTextOutput_spec spec_extractText_def)
  qed
  from hyp prompt have "fst (refineHandler e reqBody c rounds) =
           Some (Response 200
                   (RefineReply (if extractTextOutput p \<noteq> [] then extractTextOutput p
                                 else trimmedPrompt reqBody) el p))"
    by (intro refineHandler_run) simp_all
  then show "fst (refineHandler e reqBody c rounds)
            = Some (Response 200
                      (RefineReply
                         (case find (\<lambda>c. spec_trimmed c \<noteq> []) (spec_textCandidates p) of
                            None \<Rightarrow> spec_trimmed prompt
                          | Some c \<Rightarrow> spec_trimmed c)
                         el p))"
    unfolding prompt found .
qed

theorem text_extraction_witness:
  "extractTextOutput chattyJob = ''a tabby cat''
   \<and> extractTextOutput orderedItemJob = ''from text''
   \<and> extractTextOutput messageJob = ''from message''
   \<and> extractTextOutput outputTextJob = ''from output_text''
   \<and> extractTextOutput logsJob = ''l2 l3 l4 l5 l6''
   \<and> extractTextOutput (JStr ''a cat'') = []
   \<and> fst (refineHandler exampleEnvironment paddedPromptRequest
            (Fetched True 201 (job ''succeeded'' JNull)) [])
       = Some (Response 200 (RefineReply ''a cat'' 0 (job ''succeeded'' JNull)))
   \<and> fst (refineHandler exampleEnvironment paddedPromptRequest
            (Fetched True 201 (job ''succeeded'' (JStr '' a tabby cat ''))) [])
       = Some (Response 200 (RefineReply ''a tabby cat'' 0
                               (job ''succeeded'' (JStr '' a tabby cat ''))))"
proof -
  note t = text_extraction
  have f1: "(case find (\<lambda>c. spec_trimmed c \<noteq> []) (spec_textCandidates chattyJob) of
               None \<Rightarrow> [] | Some c \<Rightarrow> spec_trimmed c) = ''a tabby cat''"
    by code_simp
  have f2: "(case find (\<lambda>c. spec_trimmed c \<noteq> []) (spec_textCandidates orderedItemJob) of
               None \<Rightarrow> [] | Some c \<Rightarrow> spec_trimmed c) = ''from text''"
    by code_simp
  have f3: "(case find (\<lambda>c. spec_trimmed c \<noteq> []) (spec_textCandidates messageJob) of
               None \<Rightarrow> [] | Some c \<Rightarrow> spec_trimmed c) = ''from message''"
    by code_simp
  have f4: "(case find (\<lambda>c. spec_trimmed c \<noteq> []) (spec_textCandidates outputTextJob) of
               None \<Rightarrow> [] | Some c \<Rightarrow> spec_trimmed c) = ''from output_text''"
    by code_simp
  have f5: "(case find (\<lambda>c. spec_trimmed c \<noteq> []) (spec_textCandidates logsJob) of
               None \<Rightarrow> [] | Some c \<Rightarrow> spec_trimmed c) = ''l2 l3 l4 l5 l6''"
    by code_simp
  have f6: "(case find (\<lambda>c. spec_trimmed c \<noteq> []) (spec_textCandidates (JStr ''a cat'')) of
               None \<Rightarrow> [] | Some c \<Rightarrow> spec_trimmed c) = []"
    by code_simp
  have a1: "extractTextOutput chattyJob = ''a tabby cat''"
    using t [where prediction = chattyJob] unfolding f1 by blast
  have a2: "extractTextOutput orderedItemJob = ''from text''"
    using t [where prediction = orderedItemJob] unfolding f2 by blast
  have a3: "extractTextOutput messageJob = ''from message''"
    using t [where prediction = messageJob] unfolding f3 by blast
  have a4: "extractTextOutput outputTextJob = ''from output_text''"
    using t [where prediction = outputTextJob] unfolding f4 by blast
  have a5: "extractTextOutput logsJob = ''l2 l3 l4 l5 l6''"
    using t [where prediction = logsJob] unfolding f5 by blast
  have a6: "extractTextOutput (JStr ''a cat'') = []"
    using t [where prediction = "JStr ''a cat''"] unfolding f6 by blast
  have pre: "present (REPLICATE_API_TOKEN exampleEnvironment)
        \<and> present (REPLICATE_REFINE_MODEL_VERSION exampleEnvironment)
        \<and> getField paddedPromptRequest ''prompt'' = JStr ''  a cat  ''
        \<and> spec_trimmed ''  a cat  '' \<noteq> []
        \<and> fst (createAndPollPrediction exampleEnvironment
                (case REPLICATE_API_TOKEN exampleEnvironment of Some t \<Rightarrow> t | None \<Rightarrow> [])
                (refineBody
                   (case REPLICATE_REFINE_MODEL_VERSION exampleEnvironment of
                      Some v \<Rightarrow> v | None \<Rightarrow> [])
                   (spec_trimmed ''  a cat  ''))
                (Fetched True 201 answered) [])
            = Some (Inr (answered, 0))"
    if "answered = job ''succeeded'' out" for answered out
    unfolding that by code_simp
  have g1: "(case find (\<lambda>c. spec_trimmed c \<noteq> [])
                    (spec_textCandidates (job ''succeeded'' JNull)) of
               None \<Rightarrow> spec_trimmed ''  a cat  '' | Some c \<Rightarrow> spec_trimmed c) = ''a cat''"
    by code_simp
  have g2: "(case find (\<lambda>c. spec_trimmed c \<noteq> [])
                    (spec_textCandidates (job ''succeeded'' (JStr '' a tabby cat ''))) of
               None \<Rightarrow> spec_trimmed ''  a cat  '' | Some c \<Rightarrow> spec_trimmed c)
             = ''a tabby cat''"
    by code_simp
  have b1: "fst (refineHandler exampleEnvironment paddedPromptRequest
            (Fetched True 201 (job ''succeeded'' JNull)) [])
       = Some (Response 200 (RefineReply ''a cat'' 0 (job ''succeeded'' JNull)))"
    using t [where e = exampleEnvironment and reqBody = paddedPromptRequest
      and prompt = "''  a cat  ''"
      and c = "Fetched True 201 (job ''succeeded'' JNull)" and rounds = "[]"
      and p = "job ''succeeded'' JNull" and el = 0] pre [OF refl, of JNull]
    unfolding g1 by blast
  have b2: "fst (refineHandler exampleEnvironment paddedPromptRequest
            (Fetched True 201 (job ''succeeded'' (JStr '' a tabby cat ''))) [])
       = Some (Response 200 (RefineReply ''a tabby cat'' 0
                               (job ''succeeded'' (JStr '' a tabby cat ''))))"
    using t [where e = exampleEnvironment and reqBody = paddedPromptRequest
      and prompt = "''  a cat  ''"
      and c = "Fetched True 201 (job ''succeeded'' (JStr '' a tabby cat ''))" and rounds = "[]"
      and p = "job ''succeeded'' (JStr '' a tabby cat '')" and el = 0]
      pre [OF refl, of "JStr '' a tabby cat ''"]
    unfolding g2 by blast
  from a1 a2 a3 a4 a5 a6 b1 b2 show ?thesis
    by (intro conjI)
qed

text \<open>
  Claim C9 as stated fails: for the prompt \<open>"  a cat  "\<close> and a job with no text,
  \<open>/api/refine\<close> answers with \<open>"a cat"\<close>, which is not the prompt as it was sent; and
  for the output \<open>" a tabby cat "\<close> the text returned is the trimmed \<open>"a tabby cat"\<close>,
  not the candidate.
\<close>

theorem text_extraction_counterexample:
  "fst (refineHandler exampleEnvironment paddedPromptRequest
          (Fetched True 201 (job ''succeeded'' JNull)) [])
     = Some (Response 200 (RefineReply ''a cat'' 0 (job ''succeeded'' JNull)))
   \<and> extractTextOutput (job ''succeeded'' JNull) = []
   \<and> getField paddedPromptRequest ''prompt'' = JStr ''  a cat  ''
   \<and> ''a cat'' \<noteq> ''  a cat  ''
   \<and> extractTextOutput (job ''succeeded'' (JStr '' a tabby cat ''))  = ''a tabby cat''"
  by code_simp

end
